theory Spec2Isabelle
  imports Main "HOL-Library.AList"
begin

section \<open>The LinkSocks local provider (provider.ts) as an event-driven state machine\<close>

text \<open>
  The provider is single-threaded JavaScript: every piece of its code runs inside a
  public method (\<open>connect\<close>, \<open>close\<close>, \<open>addConnectorToken\<close>,
  \<open>removeConnectorToken\<close>) or inside an event listener that the runtime calls
  (WebSocket \<open>open/message/close/error\<close>, the two timers, the listeners of the
  TCP and UDP sockets). The embedding therefore has one HOL function for each method and
  handler of the class, with the same name, acting on a record that holds the private
  fields of \<open>LocalProvider\<close> together with the objects the class has created
  (relay sockets with their promise and timer, TCP sockets, UDP sockets) and the list of
  library calls made so far.

  Four library functions are parameters of the model (record \<open>env\<close>): the path
  component computed by \<open>new URL(base).pathname\<close> (\<open>None\<close> when the
  constructor throws), the hex SHA-256 digest, the stream of results of
  \<open>uuidv4()\<close>, and the Base64 encoding of a buffer. The wire codec (\<open>./message\<close>) is not part of the
  sources; frames are handled as the logical messages that \<open>parseMessage\<close>
  returns and \<open>packMessage\<close> takes. Console logging is not modelled.
\<close>

subsection \<open>Messages\<close>

datatype connector_op = OpAdd | OpRemove

record data_msg =
  protocol :: string
  channelId :: string
  data :: string
  address :: "string option"
  port :: "nat option"
  targetAddr :: "string option"
  targetPort :: "nat option"

text \<open>
  Modelled from the spec: the message module is missing from the sources, so the ten
  frame kinds and their fields are those of the wire schema table, with the field names
  the provider reads and writes. \<open>Connect\<close> carries protocol, channel
  identifier, address and port (the provider reads the last two with a non-null
  assertion); \<open>Data\<close> is always sent with \<open>compression = None\<close>,
  which is left out.
\<close>

datatype msg =
    Auth string
  | AuthResponse bool "string option"
  | Connect string string string nat
  | ConnectResponse bool string "string option"
  | Data data_msg
  | Disconnect string
  | Connector string string connector_op
  | ConnectorResponse bool "string option" "string option"
  | LogMsg string string
  | Partners int

text \<open>JavaScript truthiness of an optional string and of an optional number.\<close>

fun truthyStr :: "string option \<Rightarrow> bool" where
  "truthyStr None = False"
| "truthyStr (Some s) = (s \<noteq> [])"

fun truthyNum :: "nat option \<Rightarrow> bool" where
  "truthyNum None = False"
| "truthyNum (Some n) = (n \<noteq> 0)"

subsection \<open>Options and the relay URL\<close>

datatype proxy_type = Socks5 | Http

record provider_options =
  serverUrl :: string
  token :: string
  reconnectInterval :: nat
  maxReconnectAttempts :: nat
  connectTimeout :: nat
  upstreamProxy :: string
  upstreamProxyType :: proxy_type
  upstreamUsername :: string
  upstreamPassword :: string

record env =
  urlPathname :: "string \<Rightarrow> string option"
  sha256Hex :: "string \<Rightarrow> string"
  uuidv4 :: "nat \<Rightarrow> string"
  base64 :: "string \<Rightarrow> string"

datatype js_error = JsError string

definition startsWith :: "string \<Rightarrow> string \<Rightarrow> bool" where
  "startsWith s p = (take (length p) s = p)"

text \<open>\<open>CloudflareSolver.normalizeWsUrl\<close> (client.ts), applied to the URL of the
  relay configuration before it becomes the provider's \<open>serverUrl\<close>.\<close>

definition normalizeWsUrl :: "string \<Rightarrow> string" where
  "normalizeWsUrl url =
     (if startsWith url ''https://'' then ''wss://'' @ drop 8 url
      else if startsWith url ''http://'' then ''ws://'' @ drop 7 url
      else url)"

text \<open>\<open>s.replace(/\/$/, "")\<close>: one slash at the very end is removed.\<close>

definition stripTrailingSlash :: "string \<Rightarrow> string" where
  "stripTrailingSlash s = (if s \<noteq> [] \<and> last s = CHR ''/'' then butlast s else s)"

definition hasTunnelPath :: "string \<Rightarrow> bool" where
  "hasTunnelPath pathname = (pathname \<noteq> [] \<and> pathname \<noteq> ''/'' \<and> length pathname > 1)"

definition sha256Sync :: "env \<Rightarrow> string \<Rightarrow> string" where
  "sha256Sync e input = sha256Hex e input"

definition buildWebSocketUrl :: "env \<Rightarrow> provider_options \<Rightarrow> js_error + string" where
  "buildWebSocketUrl e opts =
     (let base = stripTrailingSlash (serverUrl opts);
          tokenHash = sha256Sync e (token opts)
      in case urlPathname e base of
           None \<Rightarrow> Inl (JsError ''Invalid URL'')
         | Some pathname \<Rightarrow>
             if hasTunnelPath pathname
             then let separator = (if CHR ''?'' \<in> set base then ''&'' else ''?'')
                  in Inr (base @ separator @ ''token='' @ tokenHash @ ''&reverse=true'')
             else Inr (base @ ''/socket?token='' @ tokenHash @ ''&reverse=true''))"

subsection \<open>Objects created by the provider\<close>

text \<open>
  Every call of \<open>connect()\<close> creates one promise, one WebSocket and one timer; the
  three are kept together, under the index of the call. A socket's listeners close over
  the channel identifier, the target address and the target port of the \<open>Connect\<close>
  frame that created it, so these are fields of the socket object.
\<close>

datatype ready_state = CONNECTING | OPEN | CLOSING | CLOSED

datatype promise = Pending | Resolved | Rejected js_error

datatype caller = ByUser | ByReconnect

record relay_socket =
  wsUrl :: string
  readyState :: ready_state
  outcome :: promise
  timeoutArmed :: bool
  awaitedBy :: caller

datatype tcp_status = TcpConnecting | TcpEstablished | TcpDestroyed | TcpClosed

datatype data_listener = Forward | SocksHandler nat | HttpHandler string

record tcp_socket =
  tcpFor :: string
  tcpAddress :: string
  tcpPort :: nat
  tcpStatus :: tcp_status
  tcpPendingError :: "string option"
  tcpListener :: data_listener

datatype udp_status = UdpBinding | UdpBound | UdpClosing | UdpClosed

record udp_socket =
  udpFor :: string
  udpStatus :: udp_status

record tcp_channel =
  tcpSocket :: nat
  tcpChannelId :: string

record udp_channel =
  udpSocket :: nat
  udpChannelId :: string
  clientAddr :: "string option"
  clientPort :: "nat option"

text \<open>The library calls the provider makes, in the order it makes them.\<close>

datatype target = Direct nat string | ViaProxy string

datatype call =
    NewWebSocket nat string
  | WsCloseCall nat
  | WsSend nat msg
  | NewSocket nat
  | SocketConnect nat target
  | SocketWrite nat string
  | SocketDestroy nat "string option"
  | CreateUdpSocket nat
  | UdpBind nat
  | UdpSend nat string nat string
  | UdpClose nat

record state =
  options :: provider_options
  ws :: "nat option"
  instanceId :: string
  tcpChannels :: "(string \<times> tcp_channel) list"
  udpChannels :: "(string \<times> udp_channel) list"
  reconnectAttempts :: nat
  isClosing :: bool
  partnersCount :: int
  connectorTokens :: "string list"
  relays :: "relay_socket list"
  tcps :: "tcp_socket list"
  udps :: "udp_socket list"
  reconnectTimers :: nat
  uuidCalls :: nat
  calls :: "call list"

text \<open>
  The constructor: absent options take their defaults (the logging switches
  \<open>debug\<close> and \<open>silent\<close> are left out with the logging).
\<close>

record options_arg =
  argServerUrl :: string
  argToken :: string
  argReconnectInterval :: "nat option"
  argMaxReconnectAttempts :: "nat option"
  argConnectTimeout :: "nat option"
  argUpstreamProxy :: "string option"
  argUpstreamProxyType :: "proxy_type option"
  argUpstreamUsername :: "string option"
  argUpstreamPassword :: "string option"

definition orElse :: "'a option \<Rightarrow> 'a \<Rightarrow> 'a" where
  "orElse v d = (case v of None \<Rightarrow> d | Some x \<Rightarrow> x)"

definition newLocalProvider :: "env \<Rightarrow> options_arg \<Rightarrow> state" where
  "newLocalProvider e a =
     \<lparr> options =
         \<lparr> serverUrl = argServerUrl a,
           token = argToken a,
           reconnectInterval = orElse (argReconnectInterval a) 5000,
           maxReconnectAttempts = orElse (argMaxReconnectAttempts a) 0,
           connectTimeout = orElse (argConnectTimeout a) 10000,
           upstreamProxy = orElse (argUpstreamProxy a) [],
           upstreamProxyType = orElse (argUpstreamProxyType a) Socks5,
           upstreamUsername = orElse (argUpstreamUsername a) [],
           upstreamPassword = orElse (argUpstreamPassword a) [] \<rparr>,
       ws = None,
       instanceId = uuidv4 e 0,
       tcpChannels = [],
       udpChannels = [],
       reconnectAttempts = 0,
       isClosing = False,
       partnersCount = 0,
       connectorTokens = [],
       relays = [],
       tcps = [],
       udps = [],
       reconnectTimers = 0,
       uuidCalls = 1,
       calls = [] \<rparr>"

subsection \<open>Library calls\<close>

definition mapAt :: "nat \<Rightarrow> ('a \<Rightarrow> 'a) \<Rightarrow> 'a list \<Rightarrow> 'a list" where
  "mapAt k f xs = (if k < length xs then xs[k := f (xs ! k)] else xs)"

definition logCall :: "call \<Rightarrow> state \<Rightarrow> state" where
  "logCall c s = s\<lparr>calls := calls s @ [c]\<rparr>"

definition readyStateOf :: "state \<Rightarrow> nat \<Rightarrow> ready_state" where
  "readyStateOf s k = (if k < length (relays s) then readyState (relays s ! k) else CLOSED)"

text \<open>\<open>ws.close()\<close>: a socket that is not yet closed starts closing; the
  \<open>close\<close> event follows later.\<close>

definition wsClose :: "nat \<Rightarrow> state \<Rightarrow> state" where
  "wsClose k s =
     logCall (WsCloseCall k)
       (s\<lparr>relays := mapAt k
              (\<lambda>r. r\<lparr>readyState := (if readyState r = CLOSED then CLOSED else CLOSING)\<rparr>)
              (relays s)\<rparr>)"

text \<open>\<open>socket.destroy(err)\<close> on a TCP socket: no further I/O; the \<open>error\<close>
  event (when an error is given) and the \<open>close\<close> event follow later. A second
  \<open>destroy\<close> changes nothing.\<close>

definition socketDestroy :: "nat \<Rightarrow> string option \<Rightarrow> state \<Rightarrow> state" where
  "socketDestroy i err s =
     logCall (SocketDestroy i err)
       (s\<lparr>tcps := mapAt i
              (\<lambda>t. if tcpStatus t = TcpDestroyed \<or> tcpStatus t = TcpClosed then t
                   else t\<lparr>tcpStatus := TcpDestroyed, tcpPendingError := err\<rparr>)
              (tcps s)\<rparr>)"

definition socketWrite :: "nat \<Rightarrow> string \<Rightarrow> state \<Rightarrow> state" where
  "socketWrite i d s = logCall (SocketWrite i d) s"

definition setListener :: "nat \<Rightarrow> data_listener \<Rightarrow> state \<Rightarrow> state" where
  "setListener i l s = s\<lparr>tcps := mapAt i (\<lambda>t. t\<lparr>tcpListener := l\<rparr>) (tcps s)\<rparr>"

text \<open>\<open>socket.close()\<close> on a datagram socket.\<close>

definition udpSocketClose :: "nat \<Rightarrow> state \<Rightarrow> state" where
  "udpSocketClose i s =
     logCall (UdpClose i)
       (s\<lparr>udps := mapAt i
              (\<lambda>u. if udpStatus u = UdpBinding \<or> udpStatus u = UdpBound
                   then u\<lparr>udpStatus := UdpClosing\<rparr> else u)
              (udps s)\<rparr>)"

subsection \<open>Sending\<close>

definition send :: "msg \<Rightarrow> state \<Rightarrow> state" where
  "send m s =
     (case ws s of
        None \<Rightarrow> s
      | Some k \<Rightarrow> if readyStateOf s k = OPEN then logCall (WsSend k m) s else s)"

definition sendConnectResponse :: "string \<Rightarrow> bool \<Rightarrow> string option \<Rightarrow> state \<Rightarrow> state" where
  "sendConnectResponse cid success err s = send (ConnectResponse success cid err) s"

definition sendData ::
  "string \<Rightarrow> string \<Rightarrow> string \<Rightarrow> string option \<Rightarrow> nat option \<Rightarrow> state \<Rightarrow> state" where
  "sendData cid proto d addr prt s =
     send (Data \<lparr>protocol = proto, channelId = cid, data = d, address = addr,
                 port = prt, targetAddr = None, targetPort = None\<rparr>) s"

definition sendDisconnect :: "string \<Rightarrow> state \<Rightarrow> state" where
  "sendDisconnect cid s = send (Disconnect cid) s"

subsection \<open>Connector tokens\<close>

definition addConnectorToken :: "env \<Rightarrow> string option \<Rightarrow> state \<Rightarrow> state" where
  "addConnectorToken e tok s =
     (let cid = uuidv4 e (uuidCalls s)
      in send (Connector cid (if truthyStr tok then orElse tok [] else []) OpAdd)
           (s\<lparr>uuidCalls := uuidCalls s + 1\<rparr>))"

definition removeConnectorToken :: "env \<Rightarrow> string \<Rightarrow> state \<Rightarrow> state" where
  "removeConnectorToken e tok s =
     (let cid = uuidv4 e (uuidCalls s);
          s1 = send (Connector cid tok OpRemove) (s\<lparr>uuidCalls := uuidCalls s + 1\<rparr>)
      in s1\<lparr>connectorTokens := removeAll tok (connectorTokens s1)\<rparr>)"

text \<open>\<open>Set.add\<close>: a new member goes to the end of the iteration order.\<close>

definition setAdd :: "string \<Rightarrow> string list \<Rightarrow> string list" where
  "setAdd t ts = (if t \<in> set ts then ts else ts @ [t])"

definition handleConnectorResponse :: "bool \<Rightarrow> string option \<Rightarrow> state \<Rightarrow> state" where
  "handleConnectorResponse success connectorToken s =
     (if success \<and> truthyStr connectorToken
      then s\<lparr>connectorTokens := setAdd (orElse connectorToken []) (connectorTokens s)\<rparr>
      else s)"

definition handlePartners :: "int \<Rightarrow> state \<Rightarrow> state" where
  "handlePartners n s = s\<lparr>partnersCount := n\<rparr>"

definition getPartnersCount :: "state \<Rightarrow> int" where
  "getPartnersCount s = partnersCount s"


definition isConnected :: "state \<Rightarrow> bool" where
  "isConnected s = (case ws s of None \<Rightarrow> False | Some k \<Rightarrow> readyStateOf s k = OPEN)"

subsection \<open>Connecting, reconnecting, closing\<close>

text \<open>
  \<open>connect\<close>: the body of the promise executor. An exception of the URL constructor
  rejects the promise before any socket exists; the entry of such a call is inert. The
  WebSocket constructor is taken to accept every URL that \<open>buildWebSocketUrl\<close>
  returns.
\<close>

definition connect :: "env \<Rightarrow> caller \<Rightarrow> state \<Rightarrow> state" where
  "connect e who s0 =
     (let s = (case ws s0 of None \<Rightarrow> s0 | Some old \<Rightarrow> wsClose old s0);
          k = length (relays s)
      in case buildWebSocketUrl e (options s) of
           Inl err \<Rightarrow>
             s\<lparr>relays := relays s @
                  [\<lparr>wsUrl = [], readyState = CLOSED, outcome = Rejected err,
                    timeoutArmed = False, awaitedBy = who\<rparr>]\<rparr>
         | Inr url \<Rightarrow>
             logCall (NewWebSocket k url)
               (s\<lparr>ws := Some k,
                  relays := relays s @
                    [\<lparr>wsUrl = url, readyState = CONNECTING, outcome = Pending,
                      timeoutArmed = True, awaitedBy = who\<rparr>]\<rparr>))"

text \<open>
  Settling the promise of call \<open>k\<close>: only a pending promise changes. The reconnect
  timer awaits its promise and, when it resolves, re-registers the connector tokens; this
  continuation runs as soon as the listener that resolved the promise has returned.
\<close>

definition reRegister :: "env \<Rightarrow> state \<Rightarrow> state" where
  "reRegister e s = fold (\<lambda>t. addConnectorToken e (Some t)) (connectorTokens s) s"

definition settle :: "env \<Rightarrow> nat \<Rightarrow> promise \<Rightarrow> state \<Rightarrow> state" where
  "settle e k res s =
     (if k < length (relays s) \<and> outcome (relays s ! k) = Pending
      then let s1 = s\<lparr>relays := mapAt k (\<lambda>r. r\<lparr>outcome := res\<rparr>) (relays s)\<rparr>
           in if res = Resolved \<and> awaitedBy (relays s ! k) = ByReconnect
              then reRegister e s1 else s1
      else s)"

definition clearTimeout :: "nat \<Rightarrow> state \<Rightarrow> state" where
  "clearTimeout k s = s\<lparr>relays := mapAt k (\<lambda>r. r\<lparr>timeoutArmed := False\<rparr>) (relays s)\<rparr>"

definition handleAuthResponse ::
  "env \<Rightarrow> nat \<Rightarrow> bool \<Rightarrow> string option \<Rightarrow> state \<Rightarrow> state" where
  "handleAuthResponse e k success err s =
     (let s1 = clearTimeout k s
      in if success then settle e k Resolved s1
         else settle e k
                (Rejected (JsError (''Authentication failed: '' @
                   (if truthyStr err then orElse err [] else ''Unknown error'')))) s1)"

definition attemptReconnect :: "state \<Rightarrow> state" where
  "attemptReconnect s =
     (if maxReconnectAttempts (options s) > 0
         \<and> reconnectAttempts s \<ge> maxReconnectAttempts (options s)
      then s
      else s\<lparr>reconnectAttempts := reconnectAttempts s + 1,
             reconnectTimers := reconnectTimers s + 1\<rparr>)"

definition destroyAllChannels :: "state \<Rightarrow> state" where
  "destroyAllChannels s =
     (let s1 = fold (\<lambda>(cid, ch). socketDestroy (tcpSocket ch) None) (tcpChannels s) s;
          s2 = s1\<lparr>tcpChannels := []\<rparr>;
          s3 = fold (\<lambda>(cid, ch). udpSocketClose (udpSocket ch)) (udpChannels s2) s2
      in s3\<lparr>udpChannels := []\<rparr>)"

definition handleDisconnect :: "state \<Rightarrow> state" where
  "handleDisconnect s =
     (let s1 = destroyAllChannels s
      in if \<not> isClosing s1 then attemptReconnect s1 else s1)"

definition close :: "state \<Rightarrow> state" where
  "close s =
     (let s1 = destroyAllChannels (s\<lparr>isClosing := True\<rparr>)
      in case ws s1 of
           None \<Rightarrow> s1
         | Some k \<Rightarrow> (wsClose k s1)\<lparr>ws := None\<rparr>)"

subsection \<open>Channels\<close>

text \<open>
  Buffers and strings are both lists of bytes (\<open>string\<close>), so
  \<open>TextEncoder.encode\<close> and \<open>Buffer.toString\<close> are the identity; the
  texts the HTTP handshake looks for are ASCII. A byte stored into a \<open>Uint8Array\<close>
  is taken modulo 256 (\<open>char_of\<close>), and reading past the end of a buffer gives
  \<open>undefined\<close> (\<open>None\<close>). \<open>socket.connect\<close> is taken not to
  throw: the port of a \<open>Connect\<close> frame is a valid port, and a configured upstream
  proxy has the form \<open>host:port\<close>; the call is recorded with the option as it is.
\<close>

definition bytes :: "nat list \<Rightarrow> string" where
  "bytes ns = map char_of ns"

definition byteAt :: "string \<Rightarrow> nat \<Rightarrow> nat option" where
  "byteAt d i = (if i < length d then Some (of_char (d ! i)) else None)"

function showNat :: "nat \<Rightarrow> string" where
  "showNat n = (if n < 10 then [char_of (48 + n)]
                else showNat (n div 10) @ [char_of (48 + n mod 10)])"
  by pat_completeness auto
termination
  by (relation "measure id") auto

definition crlf :: string where
  "crlf = [CHR 0x0D, CHR 0x0A]"

fun includes_str :: "string \<Rightarrow> string \<Rightarrow> bool" where
  "includes_str [] sub = (sub = [])"
| "includes_str (c # cs) sub = (startsWith (c # cs) sub \<or> includes_str cs sub)"

text \<open>\<open>s.split("\r\n")[0]\<close>: the text before the first line break.\<close>

fun firstLine :: "string \<Rightarrow> string" where
  "firstLine [] = []"
| "firstLine (c # cs) = (if startsWith (c # cs) crlf then [] else c # firstLine cs)"

definition handleTCPConnect :: "string \<Rightarrow> string \<Rightarrow> nat \<Rightarrow> state \<Rightarrow> state" where
  "handleTCPConnect cid addr prt s =
     (let i = length (tcps s);
          viaProxy = (upstreamProxy (options s) \<noteq> []);
          sock = \<lparr>tcpFor = cid, tcpAddress = addr, tcpPort = prt,
                  tcpStatus = TcpConnecting, tcpPendingError = None,
                  tcpListener =
                    (if viaProxy
                     then (if upstreamProxyType (options s) = Socks5
                           then SocksHandler 0 else HttpHandler [])
                     else Forward)\<rparr>
      in logCall (SocketConnect i
                    (if viaProxy then ViaProxy (upstreamProxy (options s))
                     else Direct prt addr))
           (logCall (NewSocket i) (s\<lparr>tcps := tcps s @ [sock]\<rparr>)))"

definition registerTcp :: "nat \<Rightarrow> string \<Rightarrow> state \<Rightarrow> state" where
  "registerTcp i cid s =
     s\<lparr>tcpChannels :=
          AList.update cid \<lparr>tcpSocket = i, tcpChannelId = cid\<rparr> (tcpChannels s)\<rparr>"

definition socks5Greeting :: "provider_options \<Rightarrow> string" where
  "socks5Greeting opts =
     (let authMethods = (if upstreamUsername opts \<noteq> [] then [0, 2] else [0])
      in bytes ([5, length authMethods] @ authMethods))"

definition httpConnectRequest :: "env \<Rightarrow> provider_options \<Rightarrow> string \<Rightarrow> nat \<Rightarrow> string" where
  "httpConnectRequest e opts addr prt =
     ''CONNECT '' @ addr @ '':'' @ showNat prt @ '' HTTP/1.1'' @ crlf
       @ ''Host: '' @ addr @ '':'' @ showNat prt @ crlf
       @ (if upstreamUsername opts \<noteq> []
          then ''Proxy-Authorization: Basic ''
                 @ base64 e (upstreamUsername opts @ '':'' @ upstreamPassword opts) @ crlf
          else [])
       @ crlf"

text \<open>
  The \<open>connect\<close> event of a TCP socket: first the listener of
  \<open>handleTCPConnect\<close>, then (with an upstream proxy) the callback given to
  \<open>socket.connect\<close> in \<open>connectViaProxy\<close>.
\<close>

definition onTcpConnect :: "env \<Rightarrow> nat \<Rightarrow> state \<Rightarrow> state" where
  "onTcpConnect e i s =
     (let t = tcps s ! i;
          s1 = sendConnectResponse (tcpFor t) True None (registerTcp i (tcpFor t) s)
      in if upstreamProxy (options s) = [] then s1
         else if upstreamProxyType (options s) = Socks5
         then socketWrite i (socks5Greeting (options s)) s1
         else socketWrite i (httpConnectRequest e (options s) (tcpAddress t) (tcpPort t)) s1)"

definition sendSocks5ConnectRequest :: "nat \<Rightarrow> string \<Rightarrow> nat \<Rightarrow> state \<Rightarrow> state" where
  "sendSocks5ConnectRequest i addr prt s =
     socketWrite i
       (bytes [5, 1, 0, 3, length addr] @ addr
          @ bytes [(prt div 256) mod 256, prt mod 256]) s"

definition socksProxyHandler :: "nat \<Rightarrow> nat \<Rightarrow> string \<Rightarrow> state \<Rightarrow> state" where
  "socksProxyHandler i handshakeState d s =
     (let t = tcps s ! i; opts = options s
      in if handshakeState = 0 then
           if byteAt d 0 \<noteq> Some 5
           then socketDestroy i (Some ''Invalid SOCKS5 response'') s
           else if byteAt d 1 = Some 2 \<and> upstreamUsername opts \<noteq> []
           then setListener i (SocksHandler 1)
                  (socketWrite i
                     (bytes [1, length (upstreamUsername opts)] @ upstreamUsername opts
                        @ bytes [length (upstreamPassword opts)] @ upstreamPassword opts) s)
           else if byteAt d 1 = Some 0
           then setListener i (SocksHandler 2)
                  (sendSocks5ConnectRequest i (tcpAddress t) (tcpPort t) s)
           else socketDestroy i (Some ''SOCKS5 auth method not supported'') s
         else if handshakeState = 1 then
           if byteAt d 1 \<noteq> Some 0
           then socketDestroy i (Some ''SOCKS5 authentication failed'') s
           else setListener i (SocksHandler 2)
                  (sendSocks5ConnectRequest i (tcpAddress t) (tcpPort t) s)
         else if handshakeState = 2 then
           if byteAt d 0 \<noteq> Some 5 \<or> byteAt d 1 \<noteq> Some 0
           then socketDestroy i
                  (Some (''SOCKS5 connect failed: '' @
                     (case byteAt d 1 of None \<Rightarrow> ''undefined'' | Some b \<Rightarrow> showNat b))) s
           else sendConnectResponse (tcpFor t) True None
                  (registerTcp i (tcpFor t) (setListener i Forward s))
         else s)"

definition httpProxyHandler :: "nat \<Rightarrow> string \<Rightarrow> string \<Rightarrow> state \<Rightarrow> state" where
  "httpProxyHandler i responseBuffer d s =
     (let t = tcps s ! i;
          buf = responseBuffer @ d;
          s1 = setListener i (HttpHandler buf) s
      in if includes_str buf (crlf @ crlf) then
           let statusLine = firstLine buf
           in if includes_str statusLine ''200''
              then sendConnectResponse (tcpFor t) True None
                     (registerTcp i (tcpFor t) (setListener i Forward s1))
              else socketDestroy i (Some (''HTTP proxy connect failed: '' @ statusLine)) s1
         else s1)"

text \<open>The \<open>data\<close> event goes to the listener currently installed.\<close>

definition onTcpData :: "nat \<Rightarrow> string \<Rightarrow> state \<Rightarrow> state" where
  "onTcpData i d s =
     (case tcpListener (tcps s ! i) of
        Forward \<Rightarrow> sendData (tcpFor (tcps s ! i)) ''tcp'' d None None s
      | SocksHandler st \<Rightarrow> socksProxyHandler i st d s
      | HttpHandler buf \<Rightarrow> httpProxyHandler i buf d s)"

definition onTcpClose :: "nat \<Rightarrow> state \<Rightarrow> state" where
  "onTcpClose i s =
     (let cid = tcpFor (tcps s ! i)
      in sendDisconnect cid (s\<lparr>tcpChannels := AList.delete cid (tcpChannels s)\<rparr>))"

definition onTcpError :: "nat \<Rightarrow> string \<Rightarrow> state \<Rightarrow> state" where
  "onTcpError i message s =
     (let cid = tcpFor (tcps s ! i)
      in sendConnectResponse cid False (Some message)
           (s\<lparr>tcpChannels := AList.delete cid (tcpChannels s)\<rparr>))"

definition handleUDPConnect :: "string \<Rightarrow> state \<Rightarrow> state" where
  "handleUDPConnect cid s =
     (let i = length (udps s)
      in logCall (UdpBind i)
           (logCall (CreateUdpSocket i)
              (s\<lparr>udps := udps s @ [\<lparr>udpFor = cid, udpStatus = UdpBinding\<rparr>]\<rparr>)))"

definition onUdpListening :: "nat \<Rightarrow> state \<Rightarrow> state" where
  "onUdpListening i s =
     (let cid = udpFor (udps s ! i)
      in sendConnectResponse cid True None
           (s\<lparr>udpChannels :=
                AList.update cid
                  \<lparr>udpSocket = i, udpChannelId = cid, clientAddr = None, clientPort = None\<rparr>
                  (udpChannels s)\<rparr>))"

definition onUdpMessage :: "nat \<Rightarrow> string \<Rightarrow> string \<Rightarrow> nat \<Rightarrow> state \<Rightarrow> state" where
  "onUdpMessage i d rAddress rPort s =
     sendData (udpFor (udps s ! i)) ''udp'' d (Some rAddress) (Some rPort) s"

definition onUdpGone :: "nat \<Rightarrow> state \<Rightarrow> state" where
  "onUdpGone i s = s\<lparr>udpChannels := AList.delete (udpFor (udps s ! i)) (udpChannels s)\<rparr>"

definition handleConnect :: "string \<Rightarrow> string \<Rightarrow> string \<Rightarrow> nat \<Rightarrow> state \<Rightarrow> state" where
  "handleConnect proto cid addr prt s =
     (if proto = ''tcp'' then handleTCPConnect cid addr prt s
      else if proto = ''udp'' then handleUDPConnect cid s
      else s)"

definition handleData :: "data_msg \<Rightarrow> state \<Rightarrow> state" where
  "handleData m s =
     (if protocol m = ''tcp'' then
        (case map_of (tcpChannels s) (channelId m) of
           None \<Rightarrow> s
         | Some ch \<Rightarrow> socketWrite (tcpSocket ch) (data m) s)
      else if protocol m = ''udp'' then
        (case map_of (udpChannels s) (channelId m) of
           None \<Rightarrow> s
         | Some ch \<Rightarrow>
             if truthyStr (targetAddr m) \<and> truthyNum (targetPort m) then
               let s1 = logCall (UdpSend (udpSocket ch) (data m)
                                   (orElse (targetPort m) 0) (orElse (targetAddr m) [])) s
               in if truthyStr (address m) \<and> truthyNum (port m)
                  then s1\<lparr>udpChannels :=
                           AList.update (channelId m)
                             (ch\<lparr>clientAddr := address m, clientPort := port m\<rparr>)
                             (udpChannels s1)\<rparr>
                  else s1
             else s)
      else s)"

definition handleDisconnectMessage :: "string \<Rightarrow> state \<Rightarrow> state" where
  "handleDisconnectMessage cid s =
     (let s1 = (case map_of (tcpChannels s) cid of
                  None \<Rightarrow> s
                | Some ch \<Rightarrow>
                    (socketDestroy (tcpSocket ch) None s)
                      \<lparr>tcpChannels := AList.delete cid (tcpChannels s)\<rparr>)
      in case map_of (udpChannels s1) cid of
           None \<Rightarrow> s1
         | Some ch \<Rightarrow>
             (udpSocketClose (udpSocket ch) s1)
               \<lparr>udpChannels := AList.delete cid (udpChannels s1)\<rparr>)"

fun handleMessage :: "env \<Rightarrow> nat \<Rightarrow> msg \<Rightarrow> state \<Rightarrow> state" where
  "handleMessage e k (AuthResponse success err) s = handleAuthResponse e k success err s"
| "handleMessage e k (Connect proto cid addr prt) s = handleConnect proto cid addr prt s"
| "handleMessage e k (Data m) s = handleData m s"
| "handleMessage e k (Disconnect cid) s = handleDisconnectMessage cid s"
| "handleMessage e k (ConnectorResponse success tok err) s =
     handleConnectorResponse success tok s"
| "handleMessage e k (LogMsg level txt) s = s"
| "handleMessage e k (Partners n) s = handlePartners n s"
| "handleMessage e k (Auth tok) s = s"
| "handleMessage e k (ConnectResponse success cid err) s = s"
| "handleMessage e k (Connector cid tok opn) s = s"

subsection \<open>Events\<close>

text \<open>
  What can happen to a provider: a call of one of its public methods, or an event that
  the runtime delivers to one of the listeners the provider has installed. The runtime's
  part of an event (the new \<open>readyState\<close> of a WebSocket, a timer that has fired
  and is gone, a socket that has become connected or closed) is applied first, then the
  provider's listener runs. \<open>enabled\<close> states when the runtime can deliver an
  event: a WebSocket opens only while connecting and delivers nothing once closed, a
  timer fires only while armed, a TCP socket emits \<open>close\<close> after it was
  connected or destroyed (after \<open>error\<close>, when it was destroyed with an error),
  a datagram socket emits \<open>close\<close> after \<open>close()\<close>.
\<close>

datatype event =
    CallConnect
  | CallClose
  | CallAddConnectorToken "string option"
  | CallRemoveConnectorToken string
  | OnWsOpen nat
  | OnWsMessage nat "msg option"
  | OnWsClose nat
  | OnWsError nat string
  | OnConnectTimeout nat
  | OnReconnectTimer
  | OnSocketConnect nat
  | OnSocketData nat string
  | OnSocketClose nat
  | OnSocketError nat string
  | OnUdpListening nat
  | OnUdpMessage nat string string nat
  | OnUdpError nat string
  | OnUdpClose nat

fun enabled :: "state \<Rightarrow> event \<Rightarrow> bool" where
  "enabled s CallConnect = True"
| "enabled s CallClose = True"
| "enabled s (CallAddConnectorToken tok) = True"
| "enabled s (CallRemoveConnectorToken tok) = True"
| "enabled s (OnWsOpen k) = (k < length (relays s) \<and> readyState (relays s ! k) = CONNECTING)"
| "enabled s (OnWsMessage k m) =
     (k < length (relays s)
      \<and> (readyState (relays s ! k) = OPEN \<or> readyState (relays s ! k) = CLOSING))"
| "enabled s (OnWsClose k) = (k < length (relays s) \<and> readyState (relays s ! k) \<noteq> CLOSED)"
| "enabled s (OnWsError k message) =
     (k < length (relays s) \<and> readyState (relays s ! k) \<noteq> CLOSED)"
| "enabled s (OnConnectTimeout k) = (k < length (relays s) \<and> timeoutArmed (relays s ! k))"
| "enabled s OnReconnectTimer = (reconnectTimers s > 0)"
| "enabled s (OnSocketConnect i) =
     (i < length (tcps s) \<and> tcpStatus (tcps s ! i) = TcpConnecting)"
| "enabled s (OnSocketData i d) =
     (i < length (tcps s) \<and> tcpStatus (tcps s ! i) = TcpEstablished)"
| "enabled s (OnSocketClose i) =
     (i < length (tcps s)
      \<and> (tcpStatus (tcps s ! i) = TcpEstablished \<or> tcpStatus (tcps s ! i) = TcpDestroyed)
      \<and> tcpPendingError (tcps s ! i) = None)"
| "enabled s (OnSocketError i message) =
     (i < length (tcps s)
      \<and> (tcpStatus (tcps s ! i) = TcpConnecting \<or> tcpStatus (tcps s ! i) = TcpEstablished
         \<or> (tcpStatus (tcps s ! i) = TcpDestroyed
            \<and> tcpPendingError (tcps s ! i) = Some message)))"
| "enabled s (OnUdpListening i) =
     (i < length (udps s) \<and> udpStatus (udps s ! i) = UdpBinding)"
| "enabled s (OnUdpMessage i d rAddress rPort) =
     (i < length (udps s) \<and> udpStatus (udps s ! i) = UdpBound)"
| "enabled s (OnUdpError i message) =
     (i < length (udps s)
      \<and> (udpStatus (udps s ! i) = UdpBinding \<or> udpStatus (udps s ! i) = UdpBound))"
| "enabled s (OnUdpClose i) =
     (i < length (udps s) \<and> udpStatus (udps s ! i) = UdpClosing)"

text \<open>The listeners that \<open>connect()\<close> installs on the WebSocket of call \<open>k\<close>,
  and the callback of its timer.\<close>

definition onWsOpen :: "nat \<Rightarrow> state \<Rightarrow> state" where
  "onWsOpen k s = s\<lparr>reconnectAttempts := 0\<rparr>"

definition onWsMessage :: "env \<Rightarrow> nat \<Rightarrow> msg option \<Rightarrow> state \<Rightarrow> state" where
  "onWsMessage e k parsed s =
     (case parsed of None \<Rightarrow> s | Some m \<Rightarrow> handleMessage e k m s)"

definition onWsClose :: "nat \<Rightarrow> state \<Rightarrow> state" where
  "onWsClose k s = handleDisconnect (clearTimeout k s)"

definition onWsError :: "env \<Rightarrow> nat \<Rightarrow> string \<Rightarrow> state \<Rightarrow> state" where
  "onWsError e k message s = settle e k (Rejected (JsError message)) (clearTimeout k s)"

definition onConnectTimeout :: "env \<Rightarrow> nat \<Rightarrow> state \<Rightarrow> state" where
  "onConnectTimeout e k s =
     settle e k (Rejected (JsError ''Connection timeout''))
       (case ws s of None \<Rightarrow> s | Some cur \<Rightarrow> wsClose cur s)"

definition setReadyState :: "nat \<Rightarrow> ready_state \<Rightarrow> state \<Rightarrow> state" where
  "setReadyState k r s = s\<lparr>relays := mapAt k (\<lambda>x. x\<lparr>readyState := r\<rparr>) (relays s)\<rparr>"

definition setTcpStatus :: "nat \<Rightarrow> tcp_status \<Rightarrow> state \<Rightarrow> state" where
  "setTcpStatus i st s =
     s\<lparr>tcps := mapAt i (\<lambda>t. t\<lparr>tcpStatus := st, tcpPendingError := None\<rparr>) (tcps s)\<rparr>"

definition setUdpStatus :: "nat \<Rightarrow> udp_status \<Rightarrow> state \<Rightarrow> state" where
  "setUdpStatus i st s = s\<lparr>udps := mapAt i (\<lambda>u. u\<lparr>udpStatus := st\<rparr>) (udps s)\<rparr>"

fun fire :: "env \<Rightarrow> state \<Rightarrow> event \<Rightarrow> state" where
  "fire e s CallConnect = connect e ByUser s"
| "fire e s CallClose = close s"
| "fire e s (CallAddConnectorToken tok) = addConnectorToken e tok s"
| "fire e s (CallRemoveConnectorToken tok) = removeConnectorToken e tok s"
| "fire e s (OnWsOpen k) = onWsOpen k (setReadyState k OPEN s)"
| "fire e s (OnWsMessage k m) = onWsMessage e k m s"
| "fire e s (OnWsClose k) = onWsClose k (setReadyState k CLOSED s)"
| "fire e s (OnWsError k message) = onWsError e k message (setReadyState k CLOSING s)"
| "fire e s (OnConnectTimeout k) = onConnectTimeout e k (clearTimeout k s)"
| "fire e s OnReconnectTimer =
     connect e ByReconnect (s\<lparr>reconnectTimers := reconnectTimers s - 1\<rparr>)"
| "fire e s (OnSocketConnect i) = onTcpConnect e i (setTcpStatus i TcpEstablished s)"
| "fire e s (OnSocketData i d) = onTcpData i d s"
| "fire e s (OnSocketClose i) = onTcpClose i (setTcpStatus i TcpClosed s)"
| "fire e s (OnSocketError i message) = onTcpError i message (setTcpStatus i TcpDestroyed s)"
| "fire e s (OnUdpListening i) = onUdpListening i (setUdpStatus i UdpBound s)"
| "fire e s (OnUdpMessage i d rAddress rPort) = onUdpMessage i d rAddress rPort s"
| "fire e s (OnUdpError i message) = onUdpGone i s"
| "fire e s (OnUdpClose i) = onUdpGone i (setUdpStatus i UdpClosed s)"

definition step :: "env \<Rightarrow> state \<Rightarrow> event \<Rightarrow> state" where
  "step e s ev = (if enabled s ev then fire e s ev else s)"

fun run :: "env \<Rightarrow> state \<Rightarrow> event list \<Rightarrow> state" where
  "run e s [] = s"
| "run e s (ev # evs) = run e (step e s ev) evs"

subsection \<open>A concrete environment and provider\<close>

text \<open>
  The theorems below hold for every environment. Closed examples need one: a path
  extractor that is right for plain URLs \<open>scheme://authority/path?query\<close>, and
  injective stand-ins for the digest, the identifiers and the Base64 encoding. The
  provider is the one \<open>CloudflareSolver.connectLinkSocks\<close> constructs (three
  reconnect attempts at most, no upstream proxy).
\<close>

fun afterScheme :: "string \<Rightarrow> string option" where
  "afterScheme (a # b # c # rest) =
     (if [a, b, c] = ''://'' then Some rest else afterScheme (b # c # rest))"
| "afterScheme rest = None"

definition examplePathname :: "string \<Rightarrow> string option" where
  "examplePathname url =
     (case afterScheme url of
        None \<Rightarrow> None
      | Some r \<Rightarrow>
          let p = takeWhile (\<lambda>c. c \<noteq> CHR ''?'' \<and> c \<noteq> CHR ''#'')
                    (dropWhile (\<lambda>c. c \<noteq> CHR ''/'' \<and> c \<noteq> CHR ''?'' \<and> c \<noteq> CHR ''#'') r)
          in Some (if p = [] then ''/'' else p))"

definition exampleEnv :: env where
  "exampleEnv =
     \<lparr> urlPathname = examplePathname,
       sha256Hex = (\<lambda>t. ''sha256:'' @ t),
       uuidv4 = (\<lambda>n. ''uuid-'' @ replicate n (CHR ''i'')),
       base64 = (\<lambda>b. ''base64:'' @ b) \<rparr>"

definition exampleArgs :: options_arg where
  "exampleArgs =
     \<lparr> argServerUrl = ''wss://relay.example'',
       argToken = ''secret'',
       argReconnectInterval = Some 5000,
       argMaxReconnectAttempts = Some 3,
       argConnectTimeout = Some 10000,
       argUpstreamProxy = None,
       argUpstreamProxyType = None,
       argUpstreamUsername = None,
       argUpstreamPassword = None \<rparr>"

definition exampleProvider :: state where
  "exampleProvider = newLocalProvider exampleEnv exampleArgs"

text \<open>The provider after \<open>connect()\<close> has resolved.\<close>

definition connectedProvider :: state where
  "connectedProvider =
     run exampleEnv exampleProvider
       [CallConnect, OnWsOpen 0, OnWsMessage 0 (Some (AuthResponse True None))]"

subsection \<open>Observations and named runs\<close>

text \<open>What \<open>send\<close> transmits in a given state, and the frames among a list of
  library calls.\<close>

definition outgoing :: "state \<Rightarrow> msg \<Rightarrow> call list" where
  "outgoing s m =
     (case ws s of
        None \<Rightarrow> []
      | Some k \<Rightarrow> if readyStateOf s k = OPEN then [WsSend k m] else [])"

fun framesSent :: "call list \<Rightarrow> (nat \<times> msg) list" where
  "framesSent [] = []"
| "framesSent (WsSend k m # cs) = (k, m) # framesSent cs"
| "framesSent (c # cs) = framesSent cs"

text \<open>The relay asks twice for a TCP channel with the same identifier; the first
  socket is connected, the second one is still connecting.\<close>

definition secondConnectPending :: state where
  "secondConnectPending =
     run exampleEnv connectedProvider
       [OnWsMessage 0 (Some (Connect ''tcp'' ''ch1'' ''a.example'' 80)),
        OnSocketConnect 0,
        OnWsMessage 0 (Some (Connect ''tcp'' ''ch1'' ''b.example'' 81))]"

text \<open>Then the second socket connects as well.\<close>

definition duplicateConnect :: state where
  "duplicateConnect = step exampleEnv secondConnectPending (OnSocketConnect 1)"

text \<open>The relay opens a TCP channel, which connects.\<close>

definition channelOpen :: state where
  "channelOpen =
     run exampleEnv connectedProvider
       [OnWsMessage 0 (Some (Connect ''tcp'' ''ch1'' ''a.example'' 80)), OnSocketConnect 0]"

text \<open>The relay disconnects the channel; then the destroyed socket emits
  \<open>close\<close>.\<close>

definition channelDisconnected :: state where
  "channelDisconnected = step exampleEnv channelOpen (OnWsMessage 0 (Some (Disconnect ''ch1'')))"

definition relayDisconnect :: state where
  "relayDisconnect = step exampleEnv channelDisconnected (OnSocketClose 0)"

text \<open>The relay socket opens and is closed again, without an error and before any
  \<open>AuthResponse\<close>.\<close>

definition closedBeforeAuth :: state where
  "closedBeforeAuth = run exampleEnv exampleProvider [CallConnect, OnWsOpen 0, OnWsClose 0]"

text \<open>The connection drops, and \<open>close()\<close> is called while the reconnect timer is
  pending; then the timer fires.\<close>

definition closeDuringReconnectDelay :: state where
  "closeDuringReconnectDelay =
     run exampleEnv connectedProvider [OnWsClose 0, CallClose, OnReconnectTimer]"



text \<open>A relay socket that is closed and whose connect timer is gone: none of the
  listeners and callbacks of its \<open>connect()\<close> call can run any more.\<close>

definition inert :: "relay_socket \<Rightarrow> bool" where
  "inert r = (readyState r = CLOSED \<and> \<not> timeoutArmed r)"




text \<open>Every registered channel holds a socket the provider has created for the
  identifier it is registered under.\<close>

definition registered :: "state \<Rightarrow> bool" where
  "registered s =
     ((\<forall>(cid, ch) \<in> set (tcpChannels s).
          tcpSocket ch < length (tcps s) \<and> tcpFor (tcps s ! tcpSocket ch) = cid)
      \<and> (\<forall>(cid, ch) \<in> set (udpChannels s).
          udpSocket ch < length (udps s) \<and> udpFor (udps s ! udpSocket ch) = cid))"

section \<open>Proofs\<close>

declare showNat.simps [simp del]

lemmas example_defs = exampleEnv_def exampleArgs_def exampleProvider_def newLocalProvider_def
  orElse_def examplePathname_def buildWebSocketUrl_def sha256Sync_def stripTrailingSlash_def
  hasTunnelPath_def

subsection \<open>Sending\<close>

text \<open>\<open>readyStateOf\<close>, \<open>isConnected\<close> and \<open>outgoing\<close> read the current relay
  socket only.\<close>

lemma readyStateOf_frame [simp]:
  "readyStateOf (s\<lparr>options := xop0\<rparr>) k = readyStateOf s k"
  "readyStateOf (s\<lparr>ws := xws1\<rparr>) k = readyStateOf s k"
  "readyStateOf (s\<lparr>instanceId := xin2\<rparr>) k = readyStateOf s k"
  "readyStateOf (s\<lparr>tcpChannels := xtc3\<rparr>) k = readyStateOf s k"
  "readyStateOf (s\<lparr>udpChannels := xud4\<rparr>) k = readyStateOf s k"
  "readyStateOf (s\<lparr>reconnectAttempts := xre5\<rparr>) k = readyStateOf s k"
  "readyStateOf (s\<lparr>isClosing := xis6\<rparr>) k = readyStateOf s k"
  "readyStateOf (s\<lparr>partnersCount := xpa7\<rparr>) k = readyStateOf s k"
  "readyStateOf (s\<lparr>connectorTokens := xco8\<rparr>) k = readyStateOf s k"
  "readyStateOf (s\<lparr>tcps := xtc10\<rparr>) k = readyStateOf s k"
  "readyStateOf (s\<lparr>udps := xud11\<rparr>) k = readyStateOf s k"
  "readyStateOf (s\<lparr>reconnectTimers := xre12\<rparr>) k = readyStateOf s k"
  "readyStateOf (s\<lparr>uuidCalls := xuu13\<rparr>) k = readyStateOf s k"
  "readyStateOf (s\<lparr>calls := xca14\<rparr>) k = readyStateOf s k"
  by (simp_all add: readyStateOf_def)

lemma isConnected_frame [simp]:
  "isConnected (s\<lparr>options := xop0\<rparr>) = isConnected s"
  "isConnected (s\<lparr>instanceId := xin2\<rparr>) = isConnected s"
  "isConnected (s\<lparr>tcpChannels := xtc3\<rparr>) = isConnected s"
  "isConnected (s\<lparr>udpChannels := xud4\<rparr>) = isConnected s"
  "isConnected (s\<lparr>reconnectAttempts := xre5\<rparr>) = isConnected s"
  "isConnected (s\<lparr>isClosing := xis6\<rparr>) = isConnected s"
  "isConnected (s\<lparr>partnersCount := xpa7\<rparr>) = isConnected s"
  "isConnected (s\<lparr>connectorTokens := xco8\<rparr>) = isConnected s"
  "isConnected (s\<lparr>tcps := xtc10\<rparr>) = isConnected s"
  "isConnected (s\<lparr>udps := xud11\<rparr>) = isConnected s"
  "isConnected (s\<lparr>reconnectTimers := xre12\<rparr>) = isConnected s"
  "isConnected (s\<lparr>uuidCalls := xuu13\<rparr>) = isConnected s"
  "isConnected (s\<lparr>calls := xca14\<rparr>) = isConnected s"
  by (simp_all add: isConnected_def split: option.splits)

lemma outgoing_frame [simp]:
  "outgoing (s\<lparr>options := xop0\<rparr>) m = outgoing s m"
  "outgoing (s\<lparr>instanceId := xin2\<rparr>) m = outgoing s m"
  "outgoing (s\<lparr>tcpChannels := xtc3\<rparr>) m = outgoing s m"
  "outgoing (s\<lparr>udpChannels := xud4\<rparr>) m = outgoing s m"
  "outgoing (s\<lparr>reconnectAttempts := xre5\<rparr>) m = outgoing s m"
  "outgoing (s\<lparr>isClosing := xis6\<rparr>) m = outgoing s m"
  "outgoing (s\<lparr>partnersCount := xpa7\<rparr>) m = outgoing s m"
  "outgoing (s\<lparr>connectorTokens := xco8\<rparr>) m = outgoing s m"
  "outgoing (s\<lparr>tcps := xtc10\<rparr>) m = outgoing s m"
  "outgoing (s\<lparr>udps := xud11\<rparr>) m = outgoing s m"
  "outgoing (s\<lparr>reconnectTimers := xre12\<rparr>) m = outgoing s m"
  "outgoing (s\<lparr>uuidCalls := xuu13\<rparr>) m = outgoing s m"
  "outgoing (s\<lparr>calls := xca14\<rparr>) m = outgoing s m"
  by (simp_all add: outgoing_def split: option.splits)

lemma send_eq: "send m s = s\<lparr>calls := calls s @ outgoing s m\<rparr>"
  by (cases "ws s") (simp_all add: send_def outgoing_def logCall_def)

lemma outgoing_not_connected: "\<not> isConnected s \<Longrightarrow> outgoing s m = []"
  by (cases "ws s") (simp_all add: outgoing_def isConnected_def)

lemma send_not_connected: "\<not> isConnected s \<Longrightarrow> send m s = s"
  by (simp add: send_eq outgoing_not_connected)


lemma addConnectorToken_eq:
  "addConnectorToken e tok s =
     s\<lparr>uuidCalls := uuidCalls s + 1,
       calls := calls s @ outgoing s
                  (Connector (uuidv4 e (uuidCalls s)) (case tok of None \<Rightarrow> [] | Some t \<Rightarrow> t) OpAdd)\<rparr>"
  by (cases tok) (auto simp: addConnectorToken_def send_eq Let_def orElse_def)


lemma exampleProvider_not_connected: "\<not> isConnected exampleProvider"
  by (simp add: isConnected_def exampleProvider_def newLocalProvider_def)

lemma exampleProvider_url:
  "buildWebSocketUrl exampleEnv (options exampleProvider)
     = Inr ''wss://relay.example/socket?token=sha256:secret&reverse=true''"
  by (simp add: example_defs)

lemmas run_defs = connect_def close_def addConnectorToken_def removeConnectorToken_def
  onWsOpen_def onWsMessage_def onWsClose_def onWsError_def onConnectTimeout_def
  onTcpConnect_def onTcpData_def onTcpClose_def onTcpError_def onUdpListening_def onUdpMessage_def
  onUdpGone_def handleConnect_def handleData_def handleDisconnectMessage_def
  handleConnectorResponse_def handlePartners_def handleAuthResponse_def settle_def reRegister_def
  attemptReconnect_def destroyAllChannels_def handleDisconnect_def handleTCPConnect_def
  handleUDPConnect_def socksProxyHandler_def httpProxyHandler_def sendSocks5ConnectRequest_def
  logCall_def wsClose_def socketDestroy_def socketWrite_def setListener_def
  udpSocketClose_def send_def sendConnectResponse_def sendData_def sendDisconnect_def
  setReadyState_def setTcpStatus_def setUdpStatus_def clearTimeout_def registerTcp_def

lemma connectedProvider_eq:
  "connectedProvider =
   exampleProvider
     \<lparr> ws := Some 0,
       relays := [\<lparr>wsUrl = ''wss://relay.example/socket?token=sha256:secret&reverse=true'',
                   readyState = OPEN, outcome = Resolved, timeoutArmed = False,
                   awaitedBy = ByUser\<rparr>],
       calls := [NewWebSocket 0 ''wss://relay.example/socket?token=sha256:secret&reverse=true''] \<rparr>"
  by (simp add: connectedProvider_def step_def run_defs example_defs mapAt_def
        afterScheme.simps)



text \<open>
  Claim C10. While the relay socket is absent or not open (\<open>isConnected\<close> is false),
  \<open>send\<close> leaves the provider as it is: the frame of a connect response, of data and
  of a disconnect is neither transmitted nor queued. \<open>addConnectorToken\<close> and
  \<open>removeConnectorToken\<close> then make no library call at all; the first only draws an
  identifier, the second also deletes the token from the local set.
\<close>

theorem frames_dropped_while_disconnected:
  assumes "\<not> isConnected s"
  shows "send m s = s
       \<and> sendConnectResponse cid ok err s = s
       \<and> sendData cid proto d addr prt s = s
       \<and> sendDisconnect cid s = s
       \<and> addConnectorToken e tok s = s\<lparr>uuidCalls := uuidCalls s + 1\<rparr>
       \<and> removeConnectorToken e t s =
           s\<lparr>uuidCalls := uuidCalls s + 1, connectorTokens := removeAll t (connectorTokens s)\<rparr>
       \<and> calls (addConnectorToken e tok s) = calls s
       \<and> calls (removeConnectorToken e t s) = calls s"
proof -
  have nc: "\<not> isConnected (s\<lparr>uuidCalls := uuidCalls s + 1\<rparr>)"
    using assms by simp
  have a: "addConnectorToken e tok s = s\<lparr>uuidCalls := uuidCalls s + 1\<rparr>"
    using send_not_connected [OF nc] by (simp add: addConnectorToken_def Let_def)
  have r: "removeConnectorToken e t s =
           s\<lparr>uuidCalls := uuidCalls s + 1, connectorTokens := removeAll t (connectorTokens s)\<rparr>"
    using send_not_connected [OF nc] by (simp add: removeConnectorToken_def Let_def)
  show ?thesis
    using assms a r
    by (simp add: send_not_connected sendConnectResponse_def sendData_def sendDisconnect_def)
qed


text \<open>Witness for C10: a provider that was never connected.\<close>

theorem frames_dropped_while_disconnected_witness:
  "\<not> isConnected exampleProvider
   \<and> send (Disconnect ''ch1'') exampleProvider = exampleProvider
   \<and> calls (addConnectorToken exampleEnv (Some ''tokA'') exampleProvider) = []
   \<and> calls (removeConnectorToken exampleEnv ''tokA'' exampleProvider) = []"
  using frames_dropped_while_disconnected [OF exampleProvider_not_connected,
          where m = "Disconnect ''ch1''" and e = exampleEnv and tok = "Some ''tokA''"
            and t = "''tokA''"]
        exampleProvider_not_connected
  by (simp add: exampleProvider_def newLocalProvider_def)


subsection \<open>Connector tokens\<close>







subsection \<open>Connecting\<close>

lemma connect_eq:
  assumes "buildWebSocketUrl e (options s) = Inr url"
  shows "connect e who s =
     s\<lparr> ws := Some (length (relays s)),
        relays := mapAt (case ws s of None \<Rightarrow> length (relays s) | Some old \<Rightarrow> old)
                    (\<lambda>r. r\<lparr>readyState := (if readyState r = CLOSED then CLOSED else CLOSING)\<rparr>)
                    (relays s)
                  @ [\<lparr>wsUrl = url, readyState = CONNECTING, outcome = Pending,
                      timeoutArmed = True, awaitedBy = who\<rparr>],
        calls := calls s @ (case ws s of None \<Rightarrow> [] | Some old \<Rightarrow> [WsCloseCall old])
                  @ [NewWebSocket (length (relays s)) url] \<rparr>"
  using assms
  by (cases "ws s") (simp_all add: connect_def wsClose_def logCall_def mapAt_def Let_def)







subsection \<open>Registries\<close>

lemma fold_socketDestroy_frame [simp]:
  "tcpChannels (fold (\<lambda>(cid, ch). socketDestroy (tcpSocket ch) None) xs s) = tcpChannels s"
  "udpChannels (fold (\<lambda>(cid, ch). socketDestroy (tcpSocket ch) None) xs s) = udpChannels s"
  "connectorTokens (fold (\<lambda>(cid, ch). socketDestroy (tcpSocket ch) None) xs s) = connectorTokens s"
  "relays (fold (\<lambda>(cid, ch). socketDestroy (tcpSocket ch) None) xs s) = relays s"
  "ws (fold (\<lambda>(cid, ch). socketDestroy (tcpSocket ch) None) xs s) = ws s"
  "options (fold (\<lambda>(cid, ch). socketDestroy (tcpSocket ch) None) xs s) = options s"
  "isClosing (fold (\<lambda>(cid, ch). socketDestroy (tcpSocket ch) None) xs s) = isClosing s"
  "reconnectAttempts (fold (\<lambda>(cid, ch). socketDestroy (tcpSocket ch) None) xs s) = reconnectAttempts s"
  "reconnectTimers (fold (\<lambda>(cid, ch). socketDestroy (tcpSocket ch) None) xs s) = reconnectTimers s"
  "udps (fold (\<lambda>(cid, ch). socketDestroy (tcpSocket ch) None) xs s) = udps s"
  "uuidCalls (fold (\<lambda>(cid, ch). socketDestroy (tcpSocket ch) None) xs s) = uuidCalls s"
  "calls (fold (\<lambda>(cid, ch). socketDestroy (tcpSocket ch) None) xs s)
     = calls s @ map (\<lambda>(cid, ch). SocketDestroy (tcpSocket ch) None) xs"
  by (induction xs arbitrary: s) (auto simp: socketDestroy_def logCall_def)

lemma fold_udpSocketClose_frame [simp]:
  "tcpChannels (fold (\<lambda>(cid, ch). udpSocketClose (udpSocket ch)) xs s) = tcpChannels s"
  "udpChannels (fold (\<lambda>(cid, ch). udpSocketClose (udpSocket ch)) xs s) = udpChannels s"
  "connectorTokens (fold (\<lambda>(cid, ch). udpSocketClose (udpSocket ch)) xs s) = connectorTokens s"
  "relays (fold (\<lambda>(cid, ch). udpSocketClose (udpSocket ch)) xs s) = relays s"
  "ws (fold (\<lambda>(cid, ch). udpSocketClose (udpSocket ch)) xs s) = ws s"
  "options (fold (\<lambda>(cid, ch). udpSocketClose (udpSocket ch)) xs s) = options s"
  "isClosing (fold (\<lambda>(cid, ch). udpSocketClose (udpSocket ch)) xs s) = isClosing s"
  "reconnectAttempts (fold (\<lambda>(cid, ch). udpSocketClose (udpSocket ch)) xs s) = reconnectAttempts s"
  "reconnectTimers (fold (\<lambda>(cid, ch). udpSocketClose (udpSocket ch)) xs s) = reconnectTimers s"
  "tcps (fold (\<lambda>(cid, ch). udpSocketClose (udpSocket ch)) xs s) = tcps s"
  "uuidCalls (fold (\<lambda>(cid, ch). udpSocketClose (udpSocket ch)) xs s) = uuidCalls s"
  "calls (fold (\<lambda>(cid, ch). udpSocketClose (udpSocket ch)) xs s)
     = calls s @ map (\<lambda>(cid, ch). UdpClose (udpSocket ch)) xs"
  by (induction xs arbitrary: s) (auto simp: udpSocketClose_def logCall_def)

lemma fold_addConnectorToken_eq:
  "fold (\<lambda>t. addConnectorToken e (Some t)) ts s =
     s\<lparr>uuidCalls := uuidCalls s + length ts,
       calls := calls s @ concat (map (\<lambda>(t, n). outgoing s (Connector (uuidv4 e n) t OpAdd))
                                  (zip ts [uuidCalls s ..< uuidCalls s + length ts]))\<rparr>"
proof (induction ts arbitrary: s)
  case Nil
  then show ?case by simp
next
  case (Cons t ts)
  have up: "[uuidCalls s ..< Suc (uuidCalls s + length ts)]
              = uuidCalls s # [Suc (uuidCalls s) ..< Suc (uuidCalls s + length ts)]"
    by (rule upt_conv_Cons) simp
  have "fold (\<lambda>t. addConnectorToken e (Some t)) (t # ts) s
          = fold (\<lambda>t. addConnectorToken e (Some t)) ts (addConnectorToken e (Some t) s)"
    by (simp only: fold_simps)
  also have "\<dots> = s\<lparr>uuidCalls := uuidCalls s + length (t # ts),
       calls := calls s @ concat (map (\<lambda>(t, n). outgoing s (Connector (uuidv4 e n) t OpAdd))
                  (zip (t # ts) [uuidCalls s ..< uuidCalls s + length (t # ts)]))\<rparr>"
    by (subst Cons.IH) (simp add: addConnectorToken_eq up del: upt_Suc)
  finally show ?case .
qed

lemma reRegister_eq:
  "reRegister e s =
     s\<lparr>uuidCalls := uuidCalls s + length (connectorTokens s),
       calls := calls s @ concat (map (\<lambda>(t, n). outgoing s (Connector (uuidv4 e n) t OpAdd))
                  (zip (connectorTokens s)
                       [uuidCalls s ..< uuidCalls s + length (connectorTokens s)]))\<rparr>"
  by (simp add: reRegister_def fold_addConnectorToken_eq)

lemma destroyAllChannels_frame [simp]:
  "tcpChannels (destroyAllChannels s) = []"
  "udpChannels (destroyAllChannels s) = []"
  "connectorTokens (destroyAllChannels s) = connectorTokens s"
  "relays (destroyAllChannels s) = relays s"
  "ws (destroyAllChannels s) = ws s"
  "options (destroyAllChannels s) = options s"
  "isClosing (destroyAllChannels s) = isClosing s"
  "reconnectAttempts (destroyAllChannels s) = reconnectAttempts s"
  "reconnectTimers (destroyAllChannels s) = reconnectTimers s"
  "uuidCalls (destroyAllChannels s) = uuidCalls s"
  "calls (destroyAllChannels s)
     = calls s @ map (\<lambda>(cid, ch). SocketDestroy (tcpSocket ch) None) (tcpChannels s)
         @ map (\<lambda>(cid, ch). UdpClose (udpSocket ch)) (udpChannels s)"
  by (simp_all add: destroyAllChannels_def Let_def)

lemma settle_frame [simp]:
  "tcpChannels (settle e k res s) = tcpChannels s"
  "udpChannels (settle e k res s) = udpChannels s"
  "connectorTokens (settle e k res s) = connectorTokens s"
  "ws (settle e k res s) = ws s"
  "options (settle e k res s) = options s"
  "isClosing (settle e k res s) = isClosing s"
  "reconnectAttempts (settle e k res s) = reconnectAttempts s"
  "reconnectTimers (settle e k res s) = reconnectTimers s"
  "tcps (settle e k res s) = tcps s"
  "udps (settle e k res s) = udps s"
  "length (relays (settle e k res s)) = length (relays s)"
  by (simp_all add: settle_def reRegister_eq Let_def mapAt_def)

text \<open>The definitions of the handlers, with \<open>send\<close> and \<open>addConnectorToken\<close>
  in the form of the equations above.\<close>

lemmas chan_defs = connect_def close_def addConnectorToken_eq removeConnectorToken_def
  onWsOpen_def onWsMessage_def onWsClose_def onWsError_def onConnectTimeout_def
  onTcpConnect_def onTcpData_def onTcpClose_def onTcpError_def onUdpListening_def onUdpMessage_def
  onUdpGone_def handleConnect_def handleData_def handleDisconnectMessage_def
  handleConnectorResponse_def handlePartners_def handleAuthResponse_def
  attemptReconnect_def handleDisconnect_def handleTCPConnect_def
  handleUDPConnect_def socksProxyHandler_def httpProxyHandler_def sendSocks5ConnectRequest_def
  logCall_def wsClose_def socketDestroy_def socketWrite_def setListener_def
  udpSocketClose_def send_eq sendConnectResponse_def sendData_def sendDisconnect_def
  setReadyState_def setTcpStatus_def setUdpStatus_def clearTimeout_def registerTcp_def

lemma keys_distinct_message:
  assumes "distinct (map fst (tcpChannels s))" "distinct (map fst (udpChannels s))"
  shows "distinct (map fst (tcpChannels (handleMessage e k m s)))
       \<and> distinct (map fst (udpChannels (handleMessage e k m s)))"
  using assms
  by (cases m)
     (auto simp: chan_defs Let_def distinct_update distinct_delete split: option.splits)

lemma keys_distinct_step:
  assumes "distinct (map fst (tcpChannels s))" "distinct (map fst (udpChannels s))"
  shows "distinct (map fst (tcpChannels (step e s ev)))
       \<and> distinct (map fst (udpChannels (step e s ev)))"
proof (cases ev)
  case (OnWsMessage k m)
  then show ?thesis
    using assms keys_distinct_message [OF assms]
    by (cases m) (simp_all add: step_def onWsMessage_def)
next
  case (OnSocketData i d)
  then show ?thesis
    using assms
    by (auto simp: step_def chan_defs Let_def distinct_update split: data_listener.splits)
qed (use assms in \<open>auto simp: step_def chan_defs Let_def distinct_update distinct_delete
        split: option.splits sum.splits\<close>)

lemma keys_distinct_run:
  assumes "distinct (map fst (tcpChannels s))" "distinct (map fst (udpChannels s))"
  shows "distinct (map fst (tcpChannels (run e s evs)))
       \<and> distinct (map fst (udpChannels (run e s evs)))"
  using assms
proof (induction evs arbitrary: s)
  case Nil
  then show ?case by simp
next
  case (Cons ev evs)
  then show ?case
    using keys_distinct_step [of s e ev] by simp
qed



text \<open>
  Claim C1, as the code has it. In every state the provider can reach, the TCP registry
  and the UDP registry each hold at most one channel per identifier. A \<open>Connect\<close>
  frame is never rejected or ignored, whatever the registries hold: it always creates a
  new socket and leaves the registries as they are. When that socket connects (TCP) or is
  bound (UDP) it is registered under its identifier in place of any channel registered
  there; no other socket changes and no socket is destroyed or closed.
\<close>

theorem channel_registry_amended:
  "distinct (map fst (tcpChannels (run e (newLocalProvider e a) evs)))
   \<and> distinct (map fst (udpChannels (run e (newLocalProvider e a) evs)))
   \<and> handleMessage e k (Connect ''tcp'' cid addr prt) s = handleTCPConnect cid addr prt s
   \<and> tcpChannels (handleTCPConnect cid addr prt s) = tcpChannels s
   \<and> butlast (tcps (handleTCPConnect cid addr prt s)) = tcps s
   \<and> calls (handleTCPConnect cid addr prt s)
       = calls s @ [NewSocket (length (tcps s)),
                    SocketConnect (length (tcps s))
                      (if upstreamProxy (options s) \<noteq> []
                       then ViaProxy (upstreamProxy (options s)) else Direct prt addr)]
   \<and> (enabled s (OnSocketConnect i) \<longrightarrow>
        map_of (tcpChannels (step e s (OnSocketConnect i))) (tcpFor (tcps s ! i))
          = Some \<lparr>tcpSocket = i, tcpChannelId = tcpFor (tcps s ! i)\<rparr>
        \<and> (\<forall>j. j \<noteq> i \<longrightarrow> tcps (step e s (OnSocketConnect i)) ! j = tcps s ! j)
        \<and> calls (step e s (OnSocketConnect i))
            = calls s @ outgoing s (ConnectResponse True (tcpFor (tcps s ! i)) None)
                @ (if upstreamProxy (options s) = [] then []
                   else [SocketWrite i
                           (if upstreamProxyType (options s) = Socks5
                            then socks5Greeting (options s)
                            else httpConnectRequest e (options s)
                                   (tcpAddress (tcps s ! i)) (tcpPort (tcps s ! i)))]))
   \<and> handleMessage e k (Connect ''udp'' cid addr prt) s = handleUDPConnect cid s
   \<and> udpChannels (handleUDPConnect cid s) = udpChannels s
   \<and> butlast (udps (handleUDPConnect cid s)) = udps s
   \<and> calls (handleUDPConnect cid s)
       = calls s @ [CreateUdpSocket (length (udps s)), UdpBind (length (udps s))]
   \<and> (enabled s (OnUdpListening i) \<longrightarrow>
        map_of (udpChannels (step e s (OnUdpListening i))) (udpFor (udps s ! i))
          = Some \<lparr>udpSocket = i, udpChannelId = udpFor (udps s ! i),
                  clientAddr = None, clientPort = None\<rparr>
        \<and> (\<forall>j. j \<noteq> i \<longrightarrow> udps (step e s (OnUdpListening i)) ! j = udps s ! j)
        \<and> calls (step e s (OnUdpListening i))
            = calls s @ outgoing s (ConnectResponse True (udpFor (udps s ! i)) None))"
proof -
  have init: "distinct (map fst (tcpChannels (newLocalProvider e a)))"
             "distinct (map fst (udpChannels (newLocalProvider e a)))"
    by (simp_all add: newLocalProvider_def)
  have tcp: "enabled s (OnSocketConnect i) \<longrightarrow>
        map_of (tcpChannels (step e s (OnSocketConnect i))) (tcpFor (tcps s ! i))
          = Some \<lparr>tcpSocket = i, tcpChannelId = tcpFor (tcps s ! i)\<rparr>
        \<and> (\<forall>j. j \<noteq> i \<longrightarrow> tcps (step e s (OnSocketConnect i)) ! j = tcps s ! j)
        \<and> calls (step e s (OnSocketConnect i))
            = calls s @ outgoing s (ConnectResponse True (tcpFor (tcps s ! i)) None)
                @ (if upstreamProxy (options s) = [] then []
                   else [SocketWrite i
                           (if upstreamProxyType (options s) = Socks5
                            then socks5Greeting (options s)
                            else httpConnectRequest e (options s)
                                   (tcpAddress (tcps s ! i)) (tcpPort (tcps s ! i)))])"
    by (simp add: step_def chan_defs Let_def mapAt_def update_conv')
  have udp: "enabled s (OnUdpListening i) \<longrightarrow>
        map_of (udpChannels (step e s (OnUdpListening i))) (udpFor (udps s ! i))
          = Some \<lparr>udpSocket = i, udpChannelId = udpFor (udps s ! i),
                  clientAddr = None, clientPort = None\<rparr>
        \<and> (\<forall>j. j \<noteq> i \<longrightarrow> udps (step e s (OnUdpListening i)) ! j = udps s ! j)
        \<and> calls (step e s (OnUdpListening i))
            = calls s @ outgoing s (ConnectResponse True (udpFor (udps s ! i)) None)"
    by (simp add: step_def chan_defs Let_def mapAt_def update_conv')
  have rest: "handleMessage e k (Connect ''tcp'' cid addr prt) s = handleTCPConnect cid addr prt s
   \<and> tcpChannels (handleTCPConnect cid addr prt s) = tcpChannels s
   \<and> butlast (tcps (handleTCPConnect cid addr prt s)) = tcps s
   \<and> calls (handleTCPConnect cid addr prt s)
       = calls s @ [NewSocket (length (tcps s)),
                    SocketConnect (length (tcps s))
                      (if upstreamProxy (options s) \<noteq> []
                       then ViaProxy (upstreamProxy (options s)) else Direct prt addr)]
   \<and> handleMessage e k (Connect ''udp'' cid addr prt) s = handleUDPConnect cid s
   \<and> udpChannels (handleUDPConnect cid s) = udpChannels s
   \<and> butlast (udps (handleUDPConnect cid s)) = udps s
   \<and> calls (handleUDPConnect cid s)
       = calls s @ [CreateUdpSocket (length (udps s)), UdpBind (length (udps s))]"
    by (simp add: handleConnect_def handleTCPConnect_def handleUDPConnect_def logCall_def Let_def)
  show ?thesis
    using keys_distinct_run [OF init, of e evs] tcp udp rest by blast
qed

lemma secondConnectPending_eq:
  "secondConnectPending =
     connectedProvider
       \<lparr> tcpChannels := [(''ch1'', \<lparr>tcpSocket = 0, tcpChannelId = ''ch1''\<rparr>)],
         tcps := [\<lparr>tcpFor = ''ch1'', tcpAddress = ''a.example'', tcpPort = 80,
                   tcpStatus = TcpEstablished, tcpPendingError = None, tcpListener = Forward\<rparr>,
                  \<lparr>tcpFor = ''ch1'', tcpAddress = ''b.example'', tcpPort = 81,
                   tcpStatus = TcpConnecting, tcpPendingError = None, tcpListener = Forward\<rparr>],
         calls := [NewWebSocket 0 ''wss://relay.example/socket?token=sha256:secret&reverse=true'',
                   NewSocket 0, SocketConnect 0 (Direct 80 ''a.example''),
                   WsSend 0 (ConnectResponse True ''ch1'' None),
                   NewSocket 1, SocketConnect 1 (Direct 81 ''b.example'')] \<rparr>"
  by (simp add: secondConnectPending_def connectedProvider_eq step_def run_defs example_defs
        mapAt_def readyStateOf_def)

lemma duplicateConnect_eq:
  "duplicateConnect =
     connectedProvider
       \<lparr> tcpChannels := [(''ch1'', \<lparr>tcpSocket = 1, tcpChannelId = ''ch1''\<rparr>)],
         tcps := [\<lparr>tcpFor = ''ch1'', tcpAddress = ''a.example'', tcpPort = 80,
                   tcpStatus = TcpEstablished, tcpPendingError = None, tcpListener = Forward\<rparr>,
                  \<lparr>tcpFor = ''ch1'', tcpAddress = ''b.example'', tcpPort = 81,
                   tcpStatus = TcpEstablished, tcpPendingError = None, tcpListener = Forward\<rparr>],
         calls := [NewWebSocket 0 ''wss://relay.example/socket?token=sha256:secret&reverse=true'',
                   NewSocket 0, SocketConnect 0 (Direct 80 ''a.example''),
                   WsSend 0 (ConnectResponse True ''ch1'' None),
                   NewSocket 1, SocketConnect 1 (Direct 81 ''b.example''),
                   WsSend 0 (ConnectResponse True ''ch1'' None)] \<rparr>"
  by (simp add: duplicateConnect_def secondConnectPending_eq connectedProvider_eq step_def
        run_defs example_defs mapAt_def readyStateOf_def)


text \<open>Witness for the amended C1: the second socket for \<open>ch1\<close> connects while the
  first is registered; a UDP socket is bound and registered.\<close>

theorem channel_registry_amended_witness:
  "enabled secondConnectPending (OnSocketConnect 1)
   \<and> map_of (tcpChannels secondConnectPending) ''ch1''
       = Some \<lparr>tcpSocket = 0, tcpChannelId = ''ch1''\<rparr>
   \<and> map_of (tcpChannels (step exampleEnv secondConnectPending (OnSocketConnect 1))) ''ch1''
       = Some \<lparr>tcpSocket = 1, tcpChannelId = ''ch1''\<rparr>
   \<and> tcpStatus (tcps (step exampleEnv secondConnectPending (OnSocketConnect 1)) ! 0)
       = TcpEstablished
   \<and> enabled (handleUDPConnect ''u1'' connectedProvider) (OnUdpListening 0)
   \<and> map_of (udpChannels (step exampleEnv (handleUDPConnect ''u1'' connectedProvider)
                (OnUdpListening 0))) ''u1''
       = Some \<lparr>udpSocket = 0, udpChannelId = ''u1'', clientAddr = None, clientPort = None\<rparr>"
proof -
  have uen: "enabled (handleUDPConnect ''u1'' connectedProvider) (OnUdpListening 0)"
    and uf: "udpFor (udps (handleUDPConnect ''u1'' connectedProvider) ! 0) = ''u1''"
    by (simp_all add: handleUDPConnect_def logCall_def Let_def connectedProvider_eq
          exampleProvider_def newLocalProvider_def)
  from channel_registry_amended [where e = exampleEnv and i = 0
         and s = "handleUDPConnect ''u1'' connectedProvider"] uen uf
  have udp: "enabled (handleUDPConnect ''u1'' connectedProvider) (OnUdpListening 0)
   \<and> map_of (udpChannels (step exampleEnv (handleUDPConnect ''u1'' connectedProvider)
                (OnUdpListening 0))) ''u1''
       = Some \<lparr>udpSocket = 0, udpChannelId = ''u1'', clientAddr = None, clientPort = None\<rparr>"
    by simp
  have en: "enabled secondConnectPending (OnSocketConnect 1)"
    by (simp add: secondConnectPending_eq)
  have before: "tcpFor (tcps secondConnectPending ! 1) = ''ch1''"
    "tcpStatus (tcps secondConnectPending ! 0) = TcpEstablished"
    "map_of (tcpChannels secondConnectPending) ''ch1''
       = Some \<lparr>tcpSocket = 0, tcpChannelId = ''ch1''\<rparr>"
    by (simp_all add: secondConnectPending_eq)
  have reg: "map_of (tcpChannels (step exampleEnv secondConnectPending (OnSocketConnect 1)))
               (tcpFor (tcps secondConnectPending ! 1))
          = Some \<lparr>tcpSocket = 1, tcpChannelId = tcpFor (tcps secondConnectPending ! 1)\<rparr>
        \<and> (\<forall>j. j \<noteq> 1 \<longrightarrow> tcps (step exampleEnv secondConnectPending (OnSocketConnect 1)) ! j
                          = tcps secondConnectPending ! j)"
    using channel_registry_amended [where e = exampleEnv and i = 1 and s = secondConnectPending]
          en by blast
  then have "tcps (step exampleEnv secondConnectPending (OnSocketConnect 1)) ! 0
               = tcps secondConnectPending ! 0"
    by simp
  with reg en before udp show ?thesis
    by simp
qed


text \<open>
  Counterexample to C1 as stated: after two \<open>Connect\<close> frames for \<open>ch1\<close> the
  second was neither rejected nor ignored (a second socket was created and a second
  success response sent), and the first socket is still connected, is no longer in the
  registry and was never destroyed.
\<close>

theorem duplicate_connect_leaks_socket_counterexample:
  "tcpChannels duplicateConnect = [(''ch1'', \<lparr>tcpSocket = 1, tcpChannelId = ''ch1''\<rparr>)]
   \<and> tcpFor (tcps duplicateConnect ! 0) = ''ch1''
   \<and> tcpStatus (tcps duplicateConnect ! 0) = TcpEstablished
   \<and> calls duplicateConnect =
       [NewWebSocket 0 ''wss://relay.example/socket?token=sha256:secret&reverse=true'',
        NewSocket 0, SocketConnect 0 (Direct 80 ''a.example''),
        WsSend 0 (ConnectResponse True ''ch1'' None),
        NewSocket 1, SocketConnect 1 (Direct 81 ''b.example''),
        WsSend 0 (ConnectResponse True ''ch1'' None)]"
  by (simp add: duplicateConnect_eq)

subsection \<open>The relay URL\<close>

lemma normalizeWsUrl_http: "normalizeWsUrl (''http://'' @ r) = ''ws://'' @ r"
  by (simp add: normalizeWsUrl_def startsWith_def)

lemma normalizeWsUrl_https: "normalizeWsUrl (''https://'' @ r) = ''wss://'' @ r"
  by (simp add: normalizeWsUrl_def startsWith_def)

lemma hasTunnelPath_iff: "hasTunnelPath p \<longleftrightarrow> 1 < length p"
  by (cases p) (auto simp: hasTunnelPath_def)

text \<open>
  Claim C9, as the code has it. The URL of the relay configuration is mapped
  \<open>http\<close> to \<open>ws\<close> and \<open>https\<close> to \<open>wss\<close>
  (\<open>normalizeWsUrl\<close>) and loses one trailing slash; call the result the base. When
  the URL constructor rejects the base there is no URL (\<open>connect()\<close> rejects).
  Otherwise, with \<open>p\<close> the path component of the base: when \<open>p\<close> is trivial
  (at most one character) the URL is the base followed by \<open>/socket?token=H&reverse=true\<close>;
  when it is not, the URL is the base followed by \<open>?token=H&reverse=true\<close>, joined with
  \<open>&\<close> instead of \<open>?\<close> when the base already contains a question mark.
  \<open>H\<close> is the hex SHA-256 digest of the raw token.
\<close>

theorem relay_url_amended:
  "buildWebSocketUrl e (opts\<lparr>serverUrl := normalizeWsUrl url, token := tok\<rparr>) =
     (case urlPathname e (stripTrailingSlash (normalizeWsUrl url)) of
        None \<Rightarrow> Inl (JsError ''Invalid URL'')
      | Some p \<Rightarrow>
          Inr (stripTrailingSlash (normalizeWsUrl url)
               @ (if length p \<le> 1 then ''/socket?''
                  else if CHR ''?'' \<in> set (stripTrailingSlash (normalizeWsUrl url))
                  then ''&'' else ''?'')
               @ ''token='' @ sha256Hex e tok @ ''&reverse=true''))
   \<and> normalizeWsUrl (''http://'' @ r) = ''ws://'' @ r
   \<and> normalizeWsUrl (''https://'' @ r) = ''wss://'' @ r
   \<and> (\<not> startsWith url ''http://'' \<and> \<not> startsWith url ''https://''
        \<longrightarrow> normalizeWsUrl url = url)
   \<and> stripTrailingSlash (u @ ''/'') = u
   \<and> (u = [] \<or> last u \<noteq> CHR ''/'' \<longrightarrow> stripTrailingSlash u = u)"
proof -
  have build: "buildWebSocketUrl e (opts\<lparr>serverUrl := normalizeWsUrl url, token := tok\<rparr>) =
     (case urlPathname e (stripTrailingSlash (normalizeWsUrl url)) of
        None \<Rightarrow> Inl (JsError ''Invalid URL'')
      | Some p \<Rightarrow>
          Inr (stripTrailingSlash (normalizeWsUrl url)
               @ (if length p \<le> 1 then ''/socket?''
                  else if CHR ''?'' \<in> set (stripTrailingSlash (normalizeWsUrl url))
                  then ''&'' else ''?'')
               @ ''token='' @ sha256Hex e tok @ ''&reverse=true''))"
    by (simp add: buildWebSocketUrl_def sha256Sync_def hasTunnelPath_iff Let_def
             split: option.splits)
  have other: "\<not> startsWith url ''http://'' \<and> \<not> startsWith url ''https://''
        \<longrightarrow> normalizeWsUrl url = url"
    by (simp add: normalizeWsUrl_def)
  have strip1: "stripTrailingSlash (u @ ''/'') = u"
    by (simp add: stripTrailingSlash_def)
  have strip2: "u = [] \<or> last u \<noteq> CHR ''/'' \<longrightarrow> stripTrailingSlash u = u"
    by (auto simp: stripTrailingSlash_def)
  show ?thesis
    using build normalizeWsUrl_http normalizeWsUrl_https other strip1 strip2 by blast
qed


text \<open>Witness for the amended C9: a tunnel address with a trailing slash, and a base
  address that needs no mapping.\<close>

theorem relay_url_amended_witness:
  "buildWebSocketUrl exampleEnv
     ((options exampleProvider)\<lparr>serverUrl := normalizeWsUrl ''https://relay.example/linksocks/abc/'',
                                token := ''secret''\<rparr>)
   = Inr ''wss://relay.example/linksocks/abc?token=sha256:secret&reverse=true''
   \<and> \<not> startsWith ''wss://relay.example'' ''http://''
   \<and> \<not> startsWith ''wss://relay.example'' ''https://''
   \<and> normalizeWsUrl ''wss://relay.example'' = ''wss://relay.example''
   \<and> last ''wss://relay.example'' \<noteq> CHR ''/''
   \<and> stripTrailingSlash ''wss://relay.example'' = ''wss://relay.example''"
  using relay_url_amended [where e = exampleEnv and opts = "options exampleProvider"
          and url = "''https://relay.example/linksocks/abc/''" and tok = "''secret''"
          and r = "''relay.example''" and u = "''wss://relay.example''"]
        relay_url_amended [where e = exampleEnv and opts = "options exampleProvider"
          and url = "''wss://relay.example''" and tok = "''secret''"
          and r = "''relay.example''" and u = "''wss://relay.example''"]
  by (simp add: startsWith_def normalizeWsUrl_def stripTrailingSlash_def exampleEnv_def
        examplePathname_def)


text \<open>
  Counterexample to C9 as stated: the base address
  \<open>https://relay.example/linksocks/abc/\<close> has the non-trivial path
  \<open>/linksocks/abc/\<close>; the derived URL is not that address, scheme mapped and path
  unchanged, followed by the query string: the path has lost its final slash.
\<close>

theorem relay_url_trailing_slash_counterexample:
  "examplePathname ''wss://relay.example/linksocks/abc/'' = Some ''/linksocks/abc/''
   \<and> hasTunnelPath ''/linksocks/abc/''
   \<and> buildWebSocketUrl exampleEnv
        ((options exampleProvider)\<lparr>serverUrl := normalizeWsUrl ''https://relay.example/linksocks/abc/''\<rparr>)
      = Inr ''wss://relay.example/linksocks/abc?token=sha256:secret&reverse=true''
   \<and> ''wss://relay.example/linksocks/abc?token=sha256:secret&reverse=true''
      \<noteq> ''wss://relay.example/linksocks/abc/'' @ ''?token='' @ sha256Hex exampleEnv ''secret''
          @ ''&reverse=true''"
  by (simp add: example_defs normalizeWsUrl_def startsWith_def)


subsection \<open>Disconnect frames\<close>

text \<open>
  Claim C4, as the code has it. On an inbound \<open>Disconnect{channelId}\<close> the handler
  destroys the TCP socket and closes the UDP socket registered under the identifier (if
  any), removes both registry entries, and itself transmits nothing. The destroyed TCP
  socket then emits \<open>close\<close>, and its \<open>close\<close> listener sends
  \<open>Disconnect{channelId}\<close> back to the relay whenever the relay socket is open; the
  \<open>close\<close> listener of a UDP socket sends nothing.
\<close>

theorem relay_disconnect_amended:
  "handleMessage e k (Disconnect cid) s = handleDisconnectMessage cid s
   \<and> calls (handleDisconnectMessage cid s)
       = calls s
         @ (case map_of (tcpChannels s) cid of
              None \<Rightarrow> [] | Some ch \<Rightarrow> [SocketDestroy (tcpSocket ch) None])
         @ (case map_of (udpChannels s) cid of
              None \<Rightarrow> [] | Some ch \<Rightarrow> [UdpClose (udpSocket ch)])
   \<and> map_of (tcpChannels (handleDisconnectMessage cid s)) cid = None
   \<and> map_of (udpChannels (handleDisconnectMessage cid s)) cid = None
   \<and> (map_of (tcpChannels s) cid = Some ch \<and> tcpSocket ch < length (tcps s)
        \<and> tcpStatus (tcps s ! tcpSocket ch) = TcpEstablished
        \<longrightarrow> enabled (handleDisconnectMessage cid s) (OnSocketClose (tcpSocket ch)))
   \<and> (enabled s (OnSocketClose i) \<longrightarrow>
        calls (step e s (OnSocketClose i))
          = calls s @ outgoing s (Disconnect (tcpFor (tcps s ! i))))
   \<and> calls (step e s (OnUdpClose j)) = calls s"
proof -
  have c: "calls (handleDisconnectMessage cid s)
       = calls s
         @ (case map_of (tcpChannels s) cid of
              None \<Rightarrow> [] | Some ch \<Rightarrow> [SocketDestroy (tcpSocket ch) None])
         @ (case map_of (udpChannels s) cid of
              None \<Rightarrow> [] | Some ch \<Rightarrow> [UdpClose (udpSocket ch)])"
    by (simp add: handleDisconnectMessage_def socketDestroy_def udpSocketClose_def logCall_def
          Let_def split: option.splits)
  have t: "map_of (tcpChannels (handleDisconnectMessage cid s)) cid = None"
    by (cases "map_of (tcpChannels s) cid"; cases "map_of (udpChannels s) cid")
       (simp_all add: handleDisconnectMessage_def socketDestroy_def udpSocketClose_def
          logCall_def Let_def delete_conv')
  have u: "map_of (udpChannels (handleDisconnectMessage cid s)) cid = None"
    by (cases "map_of (tcpChannels s) cid"; cases "map_of (udpChannels s) cid")
       (simp_all add: handleDisconnectMessage_def socketDestroy_def udpSocketClose_def
          logCall_def Let_def delete_conv')
  have en: "map_of (tcpChannels s) cid = Some ch \<and> tcpSocket ch < length (tcps s)
        \<and> tcpStatus (tcps s ! tcpSocket ch) = TcpEstablished
        \<longrightarrow> enabled (handleDisconnectMessage cid s) (OnSocketClose (tcpSocket ch))"
    by (cases "map_of (udpChannels s) cid")
       (simp_all add: handleDisconnectMessage_def socketDestroy_def udpSocketClose_def
          logCall_def Let_def mapAt_def)
  have cl: "enabled s (OnSocketClose i) \<longrightarrow>
        calls (step e s (OnSocketClose i))
          = calls s @ outgoing s (Disconnect (tcpFor (tcps s ! i)))"
    by (simp add: step_def onTcpClose_def setTcpStatus_def sendDisconnect_def send_eq Let_def
          mapAt_def)
  have ucl: "calls (step e s (OnUdpClose j)) = calls s"
    by (simp add: step_def onUdpGone_def setUdpStatus_def)
  show ?thesis
    using c t u en cl ucl by simp
qed

lemma channelOpen_eq:
  "channelOpen =
     connectedProvider
       \<lparr> tcpChannels := [(''ch1'', \<lparr>tcpSocket = 0, tcpChannelId = ''ch1''\<rparr>)],
         tcps := [\<lparr>tcpFor = ''ch1'', tcpAddress = ''a.example'', tcpPort = 80,
                   tcpStatus = TcpEstablished, tcpPendingError = None, tcpListener = Forward\<rparr>],
         calls := [NewWebSocket 0 ''wss://relay.example/socket?token=sha256:secret&reverse=true'',
                   NewSocket 0, SocketConnect 0 (Direct 80 ''a.example''),
                   WsSend 0 (ConnectResponse True ''ch1'' None)] \<rparr>"
  by (simp add: channelOpen_def connectedProvider_eq step_def run_defs example_defs
        mapAt_def readyStateOf_def)

lemma channelDisconnected_eq:
  "channelDisconnected =
     connectedProvider
       \<lparr> tcpChannels := [],
         tcps := [\<lparr>tcpFor = ''ch1'', tcpAddress = ''a.example'', tcpPort = 80,
                   tcpStatus = TcpDestroyed, tcpPendingError = None, tcpListener = Forward\<rparr>],
         calls := [NewWebSocket 0 ''wss://relay.example/socket?token=sha256:secret&reverse=true'',
                   NewSocket 0, SocketConnect 0 (Direct 80 ''a.example''),
                   WsSend 0 (ConnectResponse True ''ch1'' None),
                   SocketDestroy 0 None] \<rparr>"
  by (simp add: channelDisconnected_def channelOpen_eq connectedProvider_eq step_def run_defs
        example_defs mapAt_def readyStateOf_def)


text \<open>Witness for the amended C4: the relay disconnects the open channel \<open>ch1\<close>.\<close>

theorem relay_disconnect_amended_witness:
  "map_of (tcpChannels channelOpen) ''ch1'' = Some \<lparr>tcpSocket = 0, tcpChannelId = ''ch1''\<rparr>
   \<and> tcpStatus (tcps channelOpen ! 0) = TcpEstablished
   \<and> enabled (handleDisconnectMessage ''ch1'' channelOpen) (OnSocketClose 0)
   \<and> enabled channelDisconnected (OnSocketClose 0)
   \<and> calls (step exampleEnv channelDisconnected (OnSocketClose 0))
       = calls channelDisconnected @ [WsSend 0 (Disconnect ''ch1'')]"
proof -
  have a: "map_of (tcpChannels channelOpen) ''ch1'' = Some \<lparr>tcpSocket = 0, tcpChannelId = ''ch1''\<rparr>"
    "tcpSocket \<lparr>tcpSocket = 0, tcpChannelId = ''ch1''\<rparr> < length (tcps channelOpen)"
    "tcpStatus (tcps channelOpen ! 0) = TcpEstablished"
    by (simp_all add: channelOpen_eq)
  have b: "enabled channelDisconnected (OnSocketClose 0)"
    "outgoing channelDisconnected (Disconnect (tcpFor (tcps channelDisconnected ! 0)))
       = [WsSend 0 (Disconnect ''ch1'')]"
    by (simp_all add: channelDisconnected_eq connectedProvider_eq outgoing_def readyStateOf_def)
  have "enabled (handleDisconnectMessage ''ch1'' channelOpen) (OnSocketClose 0)"
    using relay_disconnect_amended [where s = channelOpen and cid = "''ch1''"
            and ch = "\<lparr>tcpSocket = 0, tcpChannelId = ''ch1''\<rparr>"] a
    by simp
  moreover have "calls (step exampleEnv channelDisconnected (OnSocketClose 0))
       = calls channelDisconnected @ [WsSend 0 (Disconnect ''ch1'')]"
    using relay_disconnect_amended [where s = channelDisconnected and e = exampleEnv and i = 0] b
    by simp
  ultimately show ?thesis
    using a b by simp
qed


text \<open>
  Counterexample to C4 as stated: the relay's \<open>Disconnect\<close> for \<open>ch1\<close> is
  followed by the destruction of the socket and then, as a consequence of that teardown,
  by a \<open>Disconnect\<close> frame sent back to the relay.
\<close>

theorem relay_disconnect_echo_counterexample:
  "tcpChannels relayDisconnect = []
   \<and> calls relayDisconnect =
       [NewWebSocket 0 ''wss://relay.example/socket?token=sha256:secret&reverse=true'',
        NewSocket 0, SocketConnect 0 (Direct 80 ''a.example''),
        WsSend 0 (ConnectResponse True ''ch1'' None),
        SocketDestroy 0 None,
        WsSend 0 (Disconnect ''ch1'')]"
  by (simp add: relayDisconnect_def channelDisconnected_eq connectedProvider_eq step_def
        run_defs example_defs mapAt_def readyStateOf_def)

subsection \<open>Relay sockets along a run\<close>

lemma length_mapAt [simp]: "length (mapAt k f xs) = length xs"
  by (simp add: mapAt_def)

lemma nth_mapAt: "i < length xs \<Longrightarrow> mapAt k f xs ! i = (if i = k then f (xs ! i) else xs ! i)"
  by (simp add: mapAt_def)

lemma settle_relays:
  "relays (settle e k res s)
     = (if k < length (relays s) \<and> outcome (relays s ! k) = Pending
        then mapAt k (\<lambda>r. r\<lparr>outcome := res\<rparr>) (relays s) else relays s)"
  by (simp add: settle_def reRegister_eq Let_def)

lemma length_relays_message [simp]:
  "length (relays (handleMessage e j m s)) = length (relays s)"
  by (cases m)
     (auto simp: chan_defs settle_relays Let_def split: option.splits)

lemma inert_message:
  assumes "k < length (relays s)" "inert (relays s ! k)" "j < length (relays s)"
    "readyState (relays s ! j) \<noteq> CLOSED"
  shows "relays (handleMessage e j m s) ! k = relays s ! k"
  using assms
  by (cases m)
     (auto simp: chan_defs settle_relays inert_def nth_mapAt Let_def split: option.splits)

lemma inert_step:
  assumes "k < length (relays s)" "inert (relays s ! k)"
  shows "k < length (relays (step e s ev)) \<and> relays (step e s ev) ! k = relays s ! k"
proof (cases ev)
  case (OnWsMessage j m)
  then show ?thesis
    using assms inert_message [OF assms, of j e]
    by (cases m) (auto simp: step_def onWsMessage_def)
next
  case (OnSocketData i d)
  then show ?thesis
    using assms
    by (auto simp: step_def chan_defs Let_def split: data_listener.splits)
qed (use assms in \<open>auto simp: step_def chan_defs settle_relays inert_def nth_mapAt nth_append
        Let_def split: option.splits sum.splits\<close>)

lemma inert_run:
  assumes "k < length (relays s)" "inert (relays s ! k)"
  shows "k < length (relays (run e s evs)) \<and> relays (run e s evs) ! k = relays s ! k"
  using assms
proof (induction evs arbitrary: s)
  case Nil
  then show ?case by simp
next
  case (Cons ev evs)
  from inert_step [OF Cons.prems, of e ev]
  have 1: "k < length (relays (step e s ev))" and 2: "relays (step e s ev) ! k = relays s ! k"
    by simp_all
  from Cons.IH [OF 1] 2 Cons.prems(2) show ?case
    by simp
qed


lemma closedBeforeAuth_eq:
  "closedBeforeAuth =
     exampleProvider
       \<lparr> ws := Some 0,
         reconnectAttempts := 1,
         relays := [\<lparr>wsUrl = ''wss://relay.example/socket?token=sha256:secret&reverse=true'',
                     readyState = CLOSED, outcome = Pending, timeoutArmed = False,
                     awaitedBy = ByUser\<rparr>],
         reconnectTimers := 1,
         calls := [NewWebSocket 0 ''wss://relay.example/socket?token=sha256:secret&reverse=true''] \<rparr>"
  by (simp add: closedBeforeAuth_def step_def run_defs example_defs mapAt_def)


text \<open>
  Claim C2 at the failing input. The relay socket opens and then closes without an error
  before any \<open>AuthResponse\<close> has arrived: the \<open>close\<close> listener cancels the
  connect timer and calls neither \<open>resolve\<close> nor \<open>reject\<close>. The promise of
  \<open>connect()\<close> is pending, and it stays pending whatever happens afterwards.
\<close>

theorem connect_promise_left_pending:
  "readyState (relays closedBeforeAuth ! 0) = CLOSED
   \<and> \<not> timeoutArmed (relays closedBeforeAuth ! 0)
   \<and> outcome (relays closedBeforeAuth ! 0) = Pending
   \<and> outcome (relays (run exampleEnv closedBeforeAuth evs) ! 0) = Pending"
proof -
  have 1: "0 < length (relays closedBeforeAuth)" and 2: "inert (relays closedBeforeAuth ! 0)"
    by (simp_all add: closedBeforeAuth_eq inert_def)
  from inert_run [OF 1 2, of exampleEnv evs] show ?thesis
    by (simp add: closedBeforeAuth_eq)
qed


subsection \<open>Reconnection\<close>

lemma options_message [simp]: "options (handleMessage e j m s) = options s"
  by (cases m) (auto simp: chan_defs Let_def split: option.splits)

lemma options_step [simp]: "options (step e s ev) = options s"
proof (cases ev)
  case (OnWsMessage j m)
  then show ?thesis
    by (cases m) (auto simp: step_def onWsMessage_def)
next
  case (OnSocketData i d)
  then show ?thesis
    by (auto simp: step_def chan_defs Let_def split: data_listener.splits)
qed (auto simp: step_def chan_defs Let_def split: option.splits sum.splits)










subsection \<open>Token replay\<close>

lemma framesSent_append [simp]: "framesSent (xs @ ys) = framesSent xs @ framesSent ys"
  by (induction xs rule: framesSent.induct) simp_all

lemma framesSent_destroys [simp]:
  "framesSent (map (\<lambda>(cid, ch). SocketDestroy (tcpSocket ch) None) xs) = []"
  by (induction xs) auto

lemma framesSent_closes [simp]:
  "framesSent (map (\<lambda>(cid, ch). UdpClose (udpSocket ch)) ys) = []"
  by (induction ys) auto














subsection \<open>Closing\<close>

lemma update_entry:
  "(c, ch) \<in> set (AList.update k v al) \<Longrightarrow> (c, ch) = (k, v) \<or> (c, ch) \<in> set al"
  by (induction al) (auto split: if_splits)

lemma delete_entry: "(c, ch) \<in> set (AList.delete k al) \<Longrightarrow> (c, ch) \<in> set al"
  by (induction al) (auto split: if_splits)

lemma registered_message:
  assumes "registered s"
  shows "registered (handleMessage e j m s)"
  using assms
  by (cases m)
     (auto simp: registered_def chan_defs nth_mapAt nth_append Let_def
           dest!: update_entry delete_entry map_of_SomeD
           split: option.splits if_splits)


lemma registered_step:
  assumes "registered s"
  shows "registered (step e s ev)"
proof (cases ev)
  case (OnWsMessage j m)
  then show ?thesis
    using assms registered_message [OF assms, of e j]
    by (cases m) (auto simp: step_def onWsMessage_def)
next
  case (OnSocketData i d)
  then show ?thesis
    using assms
    by (auto simp: step_def registered_def chan_defs nth_mapAt Let_def
          dest!: update_entry split: data_listener.splits if_splits)
qed (use assms in \<open>auto simp: step_def registered_def chan_defs nth_mapAt nth_append Let_def
        dest!: update_entry delete_entry split: option.splits sum.splits if_splits\<close>)

lemma registered_run: "registered s \<Longrightarrow> registered (run e s evs)"
  by (induction evs arbitrary: s) (simp_all add: registered_step)

lemma registered_sockets_distinct:
  assumes "registered s" "distinct (map fst (tcpChannels s))" "distinct (map fst (udpChannels s))"
  shows "distinct (map (\<lambda>(cid, ch). tcpSocket ch) (tcpChannels s))
       \<and> distinct (map (\<lambda>(cid, ch). udpSocket ch) (udpChannels s))"
proof -
  have "inj_on (\<lambda>(cid, ch). tcpSocket ch) (set (tcpChannels s))"
  proof (rule inj_onI, clarify)
    fix c ch c' ch'
    assume a: "(c, ch) \<in> set (tcpChannels s)" "(c', ch') \<in> set (tcpChannels s)"
      "tcpSocket ch = tcpSocket ch'"
    from assms(1) a(1) have "tcpFor (tcps s ! tcpSocket ch) = c"
      by (auto simp: registered_def)
    moreover from assms(1) a(2) have "tcpFor (tcps s ! tcpSocket ch') = c'"
      by (auto simp: registered_def)
    ultimately have "c = c'"
      using a(3) by simp
    with a assms(2) show "c = c' \<and> ch = ch'"
      by (auto dest: eq_key_imp_eq_value)
  qed
  moreover have "inj_on (\<lambda>(cid, ch). udpSocket ch) (set (udpChannels s))"
  proof (rule inj_onI, clarify)
    fix c ch c' ch'
    assume a: "(c, ch) \<in> set (udpChannels s)" "(c', ch') \<in> set (udpChannels s)"
      "udpSocket ch = udpSocket ch'"
    from assms(1) a(1) have "udpFor (udps s ! udpSocket ch) = c"
      by (auto simp: registered_def)
    moreover from assms(1) a(2) have "udpFor (udps s ! udpSocket ch') = c'"
      by (auto simp: registered_def)
    ultimately have "c = c'"
      using a(3) by simp
    with a assms(3) show "c = c' \<and> ch = ch'"
      by (auto dest: eq_key_imp_eq_value)
  qed
  moreover have "distinct (tcpChannels s)" "distinct (udpChannels s)"
    using assms(2,3) by (auto simp: distinct_map)
  ultimately show ?thesis
    by (simp add: distinct_map)
qed

lemma closing_message:
  "isClosing (handleMessage e j m s) = isClosing s
   \<and> reconnectTimers (handleMessage e j m s) = reconnectTimers s"
  by (cases m) (auto simp: chan_defs Let_def split: option.splits)

lemma closing_step:
  assumes "isClosing s"
  shows "isClosing (step e s ev) \<and> reconnectTimers (step e s ev) \<le> reconnectTimers s"
proof (cases ev)
  case (OnWsMessage j m)
  then show ?thesis
    using assms closing_message [of e j _ s]
    by (cases m) (auto simp: step_def onWsMessage_def)
next
  case (OnSocketData i d)
  then show ?thesis
    using assms
    by (auto simp: step_def chan_defs Let_def split: data_listener.splits)
qed (use assms in \<open>auto simp: step_def chan_defs Let_def split: option.splits sum.splits\<close>)

lemma closing_run:
  assumes "isClosing s"
  shows "isClosing (run e s evs) \<and> reconnectTimers (run e s evs) \<le> reconnectTimers s"
  using assms
proof (induction evs arbitrary: s)
  case Nil
  then show ?case by simp
next
  case (Cons ev evs)
  from closing_step [OF Cons.prems, of e ev] Cons.IH [of "step e s ev"]
  show ?case
    by auto
qed


lemma close_fields:
  "isClosing (close s)" "tcpChannels (close s) = []" "udpChannels (close s) = []"
  "ws (close s) = None"
  "calls (close s)
     = calls s @ map (\<lambda>(cid, ch). SocketDestroy (tcpSocket ch) None) (tcpChannels s)
         @ map (\<lambda>(cid, ch). UdpClose (udpSocket ch)) (udpChannels s)
         @ (case ws s of None \<Rightarrow> [] | Some k \<Rightarrow> [WsCloseCall k])"
  by (cases "ws s"; simp add: close_def wsClose_def logCall_def Let_def)+

lemma close_idle:
  assumes "isClosing s" "tcpChannels s = []" "udpChannels s = []" "ws s = None"
  shows "close s = s"
  using assms by (simp add: close_def destroyAllChannels_def Let_def)

text \<open>
  Teardown by \<open>close()\<close>. It sets the shutdown flag, calls \<open>destroy()\<close> once
  for every registered TCP channel and \<open>close()\<close> once for every registered UDP
  channel, empties both registries, and closes and forgets the relay socket if there is
  one. A second \<open>close()\<close> changes nothing and makes no library call, and so does
  \<open>close()\<close> on a provider that was never connected (apart from setting the flag).
  In every reachable state the registered channels hold pairwise different sockets, so no
  socket is destroyed twice. Once \<open>close()\<close> has run the flag stays set and no
  event schedules a reconnect attempt.
\<close>

theorem close_tears_down:
  "isClosing (close s)
   \<and> tcpChannels (close s) = []
   \<and> udpChannels (close s) = []
   \<and> ws (close s) = None
   \<and> calls (close s)
       = calls s @ map (\<lambda>(cid, ch). SocketDestroy (tcpSocket ch) None) (tcpChannels s)
           @ map (\<lambda>(cid, ch). UdpClose (udpSocket ch)) (udpChannels s)
           @ (case ws s of None \<Rightarrow> [] | Some k \<Rightarrow> [WsCloseCall k])
   \<and> close (close s) = close s
   \<and> close (newLocalProvider e a) = (newLocalProvider e a)\<lparr>isClosing := True\<rparr>
   \<and> distinct (map (\<lambda>(cid, ch). tcpSocket ch) (tcpChannels (run e (newLocalProvider e a) evs)))
   \<and> distinct (map (\<lambda>(cid, ch). udpSocket ch) (udpChannels (run e (newLocalProvider e a) evs)))
   \<and> isClosing (run e (close s) evs)
   \<and> reconnectTimers (run e (close s) evs) \<le> reconnectTimers s"
proof -
  have idem: "close (close s) = close s"
    by (rule close_idle) (simp_all add: close_fields)
  have fresh: "close (newLocalProvider e a) = (newLocalProvider e a)\<lparr>isClosing := True\<rparr>"
    by (simp add: close_def destroyAllChannels_def newLocalProvider_def Let_def)
  have init: "registered (newLocalProvider e a)"
    "distinct (map fst (tcpChannels (newLocalProvider e a)))"
    "distinct (map fst (udpChannels (newLocalProvider e a)))"
    by (simp_all add: registered_def newLocalProvider_def)
  have keys: "distinct (map fst (tcpChannels (run e (newLocalProvider e a) evs)))"
    "distinct (map fst (udpChannels (run e (newLocalProvider e a) evs)))"
    using keys_distinct_run [OF init(2,3), of e evs] by simp_all
  note socks = registered_sockets_distinct [OF registered_run [OF init(1), of e evs] keys]
  have timers: "reconnectTimers (close s) = reconnectTimers s"
    by (cases "ws s"; simp add: close_def wsClose_def logCall_def Let_def)
  have after: "isClosing (run e (close s) evs)
     \<and> reconnectTimers (run e (close s) evs) \<le> reconnectTimers s"
    using closing_run [of "close s" e evs] by (simp add: close_fields timers)
  show ?thesis
    using idem fresh socks after by (simp add: close_fields)
qed



text \<open>Witness for the teardown: \<open>close()\<close> with one open TCP channel, twice.\<close>

theorem close_tears_down_witness:
  "calls (close channelOpen) = calls channelOpen @ [SocketDestroy 0 None, WsCloseCall 0]
   \<and> tcpChannels (close channelOpen) = []
   \<and> close (close channelOpen) = close channelOpen
   \<and> calls (close (close channelOpen)) = calls (close channelOpen)"
proof -
  have c: "calls (close channelOpen) = calls channelOpen @ [SocketDestroy 0 None, WsCloseCall 0]"
    by (simp add: close_fields channelOpen_eq connectedProvider_eq exampleProvider_def
          newLocalProvider_def)
  from close_tears_down [where s = channelOpen and e = exampleEnv and a = exampleArgs
         and evs = "[]"]
  have "tcpChannels (close channelOpen) = []" "close (close channelOpen) = close channelOpen"
    by simp_all
  with c show ?thesis
    by simp
qed

lemma closeDuringReconnectDelay_eq:
  "closeDuringReconnectDelay =
     connectedProvider
       \<lparr> ws := Some 1,
         reconnectAttempts := 1,
         isClosing := True,
         relays := [\<lparr>wsUrl = ''wss://relay.example/socket?token=sha256:secret&reverse=true'',
                     readyState = CLOSED, outcome = Resolved, timeoutArmed = False,
                     awaitedBy = ByUser\<rparr>,
                    \<lparr>wsUrl = ''wss://relay.example/socket?token=sha256:secret&reverse=true'',
                     readyState = CONNECTING, outcome = Pending, timeoutArmed = True,
                     awaitedBy = ByReconnect\<rparr>],
         calls := [NewWebSocket 0 ''wss://relay.example/socket?token=sha256:secret&reverse=true'',
                   WsCloseCall 0,
                   NewWebSocket 1 ''wss://relay.example/socket?token=sha256:secret&reverse=true''] \<rparr>"
  by (simp add: closeDuringReconnectDelay_def connectedProvider_eq step_def run_defs example_defs
        mapAt_def)


text \<open>
  Claim C8 at the failing input. The connection has dropped and the reconnect timer is
  pending when \<open>close()\<close> is called. \<open>close()\<close> does not cancel the timer and
  the timer's callback does not look at the shutdown flag: when it fires, the provider,
  although shut down, opens a new relay socket.
\<close>

theorem reconnect_after_close:
  "isClosing closeDuringReconnectDelay
   \<and> ws closeDuringReconnectDelay = Some 1
   \<and> readyState (relays closeDuringReconnectDelay ! 1) = CONNECTING
   \<and> calls closeDuringReconnectDelay =
       [NewWebSocket 0 ''wss://relay.example/socket?token=sha256:secret&reverse=true'',
        WsCloseCall 0,
        NewWebSocket 1 ''wss://relay.example/socket?token=sha256:secret&reverse=true'']"
  by (simp add: closeDuringReconnectDelay_eq)


subsection \<open>Settling the promise of connect\<close>

lemma resolved_message:
  assumes "k < length (relays s)" "outcome (relays (handleMessage e j m s) ! k) = Resolved"
  shows "outcome (relays s ! k) = Resolved \<or> (j = k \<and> (\<exists>err. m = AuthResponse True err))"
  using assms
  by (cases m)
     (auto simp: chan_defs settle_relays nth_mapAt Let_def split: option.splits if_splits)

lemma resolved_step:
  assumes "k < length (relays s)" "outcome (relays (step e s ev) ! k) = Resolved"
  shows "outcome (relays s ! k) = Resolved
       \<or> (\<exists>err. ev = OnWsMessage k (Some (AuthResponse True err)))"
proof (cases ev)
  case (OnWsMessage j m)
  then show ?thesis
    using assms resolved_message [OF assms(1), of e j]
    by (cases m) (auto simp: step_def onWsMessage_def split: if_splits)
next
  case (OnSocketData i d)
  then show ?thesis
    using assms
    by (auto simp: step_def chan_defs Let_def split: data_listener.splits if_splits)
qed (use assms in \<open>auto simp: step_def chan_defs settle_relays nth_mapAt nth_append Let_def
        split: option.splits sum.splits if_splits\<close>)


text \<open>
  How a pending promise of \<open>connect()\<close> is settled. An \<open>AuthResponse\<close> on the
  socket of the call resolves it when \<open>success\<close> is true and otherwise rejects it
  with \<open>Authentication failed:\<close> followed by the server's error text (or
  \<open>Unknown error\<close> when there is none); either way the connect timer is cancelled.
  An \<open>error\<close> event of the socket rejects it with that error. The connect timer
  rejects it with \<open>Connection timeout\<close>, after calling \<open>close()\<close> on the
  provider's current relay socket. No other event resolves it.
\<close>

theorem connect_promise_settlement:
  assumes "k < length (relays s)" "outcome (relays s ! k) = Pending"
  shows "outcome (relays (handleMessage e k (AuthResponse True err) s) ! k) = Resolved
       \<and> outcome (relays (handleMessage e k (AuthResponse False err) s) ! k)
           = Rejected (JsError (''Authentication failed: '' @
               (case err of None \<Rightarrow> ''Unknown error''
                | Some t \<Rightarrow> if t = [] then ''Unknown error'' else t)))
       \<and> \<not> timeoutArmed (relays (handleMessage e k (AuthResponse ok err) s) ! k)
       \<and> (enabled s (OnWsError k message) \<longrightarrow>
            outcome (relays (step e s (OnWsError k message)) ! k) = Rejected (JsError message))
       \<and> (enabled s (OnConnectTimeout k) \<longrightarrow>
            outcome (relays (step e s (OnConnectTimeout k)) ! k)
              = Rejected (JsError ''Connection timeout'')
            \<and> calls (step e s (OnConnectTimeout k))
              = calls s @ (case ws s of None \<Rightarrow> [] | Some cur \<Rightarrow> [WsCloseCall cur]))
       \<and> (outcome (relays (step e s ev) ! k) = Resolved \<longrightarrow>
            (\<exists>err'. ev = OnWsMessage k (Some (AuthResponse True err'))))"
proof -
  have a: "outcome (relays (handleMessage e k (AuthResponse True err) s) ! k) = Resolved"
    using assms
    by (simp add: handleAuthResponse_def clearTimeout_def settle_relays nth_mapAt)
  have b: "outcome (relays (handleMessage e k (AuthResponse False err) s) ! k)
           = Rejected (JsError (''Authentication failed: '' @
               (case err of None \<Rightarrow> ''Unknown error''
                | Some t \<Rightarrow> if t = [] then ''Unknown error'' else t)))"
    using assms
    by (cases err)
       (simp_all add: handleAuthResponse_def clearTimeout_def settle_relays nth_mapAt orElse_def)
  have c: "\<not> timeoutArmed (relays (handleMessage e k (AuthResponse ok err) s) ! k)"
    using assms
    by (cases ok)
       (simp_all add: handleAuthResponse_def clearTimeout_def settle_relays nth_mapAt Let_def)
  have d: "enabled s (OnWsError k message) \<longrightarrow>
            outcome (relays (step e s (OnWsError k message)) ! k) = Rejected (JsError message)"
    using assms
    by (simp add: step_def onWsError_def clearTimeout_def setReadyState_def settle_relays
          nth_mapAt)
  have t: "enabled s (OnConnectTimeout k) \<longrightarrow>
            outcome (relays (step e s (OnConnectTimeout k)) ! k)
              = Rejected (JsError ''Connection timeout'')
            \<and> calls (step e s (OnConnectTimeout k))
              = calls s @ (case ws s of None \<Rightarrow> [] | Some cur \<Rightarrow> [WsCloseCall cur])"
    using assms
    by (cases "ws s")
       (auto simp: step_def onConnectTimeout_def clearTimeout_def wsClose_def logCall_def
          settle_def nth_mapAt)
  have r: "outcome (relays (step e s ev) ! k) = Resolved \<longrightarrow>
            (\<exists>err'. ev = OnWsMessage k (Some (AuthResponse True err')))"
    using resolved_step [OF assms(1), of e ev] assms(2) by auto
  show ?thesis
    using a b c d t r by blast
qed

lemma connecting_eq:
  "connect exampleEnv ByUser exampleProvider =
     exampleProvider
       \<lparr> ws := Some 0,
         relays := [\<lparr>wsUrl = ''wss://relay.example/socket?token=sha256:secret&reverse=true'',
                     readyState = CONNECTING, outcome = Pending, timeoutArmed = True,
                     awaitedBy = ByUser\<rparr>],
         calls := [NewWebSocket 0 ''wss://relay.example/socket?token=sha256:secret&reverse=true''] \<rparr>"
  by (subst connect_eq [OF exampleProvider_url])
     (simp add: exampleProvider_def newLocalProvider_def mapAt_def)


text \<open>Witness for the settlement: the first \<open>connect()\<close> of the example provider,
  still connecting.\<close>

theorem connect_promise_settlement_witness:
  "0 < length (relays (connect exampleEnv ByUser exampleProvider))
   \<and> outcome (relays (connect exampleEnv ByUser exampleProvider) ! 0) = Pending
   \<and> enabled (connect exampleEnv ByUser exampleProvider) (OnConnectTimeout 0)
   \<and> enabled (connect exampleEnv ByUser exampleProvider) (OnWsError 0 ''ECONNREFUSED'')
   \<and> outcome (relays (step exampleEnv (connect exampleEnv ByUser exampleProvider)
                          (OnConnectTimeout 0)) ! 0)
       = Rejected (JsError ''Connection timeout'')
   \<and> calls (step exampleEnv (connect exampleEnv ByUser exampleProvider) (OnConnectTimeout 0))
       = calls (connect exampleEnv ByUser exampleProvider) @ [WsCloseCall 0]
   \<and> outcome (relays (step exampleEnv (connect exampleEnv ByUser exampleProvider)
                          (OnWsError 0 ''ECONNREFUSED'')) ! 0)
       = Rejected (JsError ''ECONNREFUSED'')
   \<and> outcome (relays (handleMessage exampleEnv 0 (AuthResponse False (Some ''bad token''))
                          (connect exampleEnv ByUser exampleProvider)) ! 0)
       = Rejected (JsError ''Authentication failed: bad token'')"
proof -
  have h: "0 < length (relays (connect exampleEnv ByUser exampleProvider))"
    "outcome (relays (connect exampleEnv ByUser exampleProvider) ! 0) = Pending"
    and en: "enabled (connect exampleEnv ByUser exampleProvider) (OnConnectTimeout 0)"
    "enabled (connect exampleEnv ByUser exampleProvider) (OnWsError 0 ''ECONNREFUSED'')"
    and w: "ws (connect exampleEnv ByUser exampleProvider) = Some 0"
    by (simp_all add: connecting_eq)
  from connect_promise_settlement [OF h, where e = exampleEnv and err = "Some ''bad token''"
         and message = "''ECONNREFUSED''"] h en w
  show ?thesis
    by simp
qed

end
